theory Spec2Isabelle
  imports Complex_Main
begin

section \<open>Python values used by the banking Front End\<close>

text \<open>
  Amounts and balances are Python floats in the source: binary64 numbers. A finite
  float is modelled as the real number it denotes, and the sum and the difference of two
  floats are rounded to the nearest float, ties to even, as the machine does. NaN and
  the infinities (also as the result of an overflow) are outside this model.
  A name that may be \<open>None\<close> is a
  \<open>string option\<close>. A method of the controller maps the controller's fields
  before the call to its reply and the fields after the call; a reply is the returned
  pair \<open>(success, message)\<close>, or the exception Python would raise.
\<close>

datatype py_error = AttributeError | TypeError

type_synonym reply = "py_error + bool \<times> string"

definition newline :: char where
  "newline = CHR 0x0A"

definition dquote :: char where
  "dquote = CHR 0x22"

subsection \<open>str.ljust, str.zfill, slices, str.join\<close>

definition ljust :: "nat \<Rightarrow> string \<Rightarrow> string" where
  "ljust width s = s @ replicate (width - length s) CHR '' ''"

text \<open>\<open>str.zfill\<close> keeps a leading sign in front of the zeros.\<close>

definition zfill :: "nat \<Rightarrow> string \<Rightarrow> string" where
  "zfill width s =
     (if width \<le> length s then s
      else
        (case s of
           [] \<Rightarrow> replicate width CHR ''0''
         | c # r \<Rightarrow>
             if c = CHR ''+'' \<or> c = CHR ''-''
             then c # replicate (width - length s) CHR ''0'' @ r
             else replicate (width - length s) CHR ''0'' @ s))"

text \<open>The slice \<open>s[-n:]\<close>: the last \<open>n\<close> characters, all of \<open>s\<close> when it is shorter.\<close>

definition last_chars :: "nat \<Rightarrow> string \<Rightarrow> string" where
  "last_chars n s = drop (length s - n) s"

fun join :: "string \<Rightarrow> string list \<Rightarrow> string" where
  "join sep [] = []"
| "join sep [x] = x"
| "join sep (x # y # ys) = x @ sep @ join sep (y # ys)"

subsection \<open>Float arithmetic\<close>

definition round_half_even :: "real \<Rightarrow> int" where
  "round_half_even y =
     (let f = \<lfloor>y\<rfloor>; d = y - of_int f
      in if d < 1 / 2 then f
         else if 1 / 2 < d then f + 1
         else if even f then f else f + 1)"

text \<open>The number of binary digits of a natural number.\<close>

fun bit_length :: "nat \<Rightarrow> nat" where
  "bit_length n = (if n = 0 then 0 else Suc (bit_length (n div 2)))"

declare bit_length.simps [simp del]

definition pow2 :: "int \<Rightarrow> real" where
  "pow2 e = (if 0 \<le> e then 2 ^ nat e else 1 / 2 ^ nat (- e))"

text \<open>For a positive \<open>x\<close>, the exponent \<open>k\<close> with \<open>2 ^ k \<le> x < 2 ^ (k + 1)\<close>.\<close>

definition binary_exponent :: "real \<Rightarrow> int" where
  "binary_exponent x =
     (if 1 \<le> x then int (bit_length (nat \<lfloor>x\<rfloor>)) - 1
      else - int (bit_length (nat (\<lceil>1 / x\<rceil> - 1))))"

text \<open>
  The binary64 number nearest to a real: a significand of 53 binary digits, the last
  place never below \<open>2 ^ -1074\<close>, ties to the even significand. It is what a float
  operation returns for the exact result \<open>x\<close>, and what a decimal literal denotes.
\<close>

definition round_double :: "real \<Rightarrow> real" where
  "round_double x =
     (if x = 0 then 0
      else
        let e = max (binary_exponent \<bar>x\<bar> - 52) (- 1074);
            m = round_half_even (\<bar>x\<bar> / pow2 e)
        in sgn x * of_int m * pow2 e)"

text \<open>
  The largest float. For an exact result beyond it the machine returns an infinity,
  which this model does not have: \<open>round_double\<close> describes an operation whose exact
  result is at most \<open>max_float\<close> in magnitude.
\<close>

definition max_float :: real where
  "max_float = (2 ^ 53 - 1) * 2 ^ 971"

definition float_add :: "real \<Rightarrow> real \<Rightarrow> real" where
  "float_add x y = round_double (x + y)"

definition float_sub :: "real \<Rightarrow> real \<Rightarrow> real" where
  "float_sub x y = round_double (x - y)"

subsection \<open>str(int), int(str) and the format spec .2f\<close>

definition digit_char :: "nat \<Rightarrow> char" where
  "digit_char d = char_of (48 + d)"

fun str_nat :: "nat \<Rightarrow> string" where
  "str_nat n = (if n < 10 then [digit_char n] else str_nat (n div 10) @ [digit_char (n mod 10)])"

declare str_nat.simps [simp del]

definition str_int :: "int \<Rightarrow> string" where
  "str_int k = (if k < 0 then CHR ''-'' # str_nat (nat (- k)) else str_nat (nat k))"

definition is_digit :: "char \<Rightarrow> bool" where
  "is_digit c = (48 \<le> (of_char c :: nat) \<and> (of_char c :: nat) \<le> 57)"

definition digit_val :: "char \<Rightarrow> nat" where
  "digit_val c = of_char c - 48"

text \<open>
  Strings are ASCII. The whitespace \<open>int()\<close> strips from both ends of an ASCII
  string is tab, line feed, vertical tab, form feed, carriage return and space.
\<close>

definition is_space :: "char \<Rightarrow> bool" where
  "is_space c = (let n = (of_char c :: nat) in (9 \<le> n \<and> n \<le> 13) \<or> n = 32)"

definition strip :: "string \<Rightarrow> string" where
  "strip s = rev (dropWhile is_space (rev (dropWhile is_space s)))"

text \<open>
  The digits of a decimal literal as \<open>int()\<close> reads them: at least one digit, and
  single underscores allowed between digits only. The flag says whether the previous
  character was a digit.
\<close>

fun parse_digits :: "nat \<Rightarrow> bool \<Rightarrow> string \<Rightarrow> nat option" where
  "parse_digits acc prev [] = (if prev then Some acc else None)"
| "parse_digits acc prev (c # cs) =
     (if is_digit c then parse_digits (acc * 10 + digit_val c) True cs
      else if c = CHR ''_'' \<and> prev then parse_digits acc False cs
      else None)"

text \<open>
  \<open>int(s)\<close> in base ten; \<open>None\<close> is the \<open>ValueError\<close>. The interpreter's
  limit on the number of digits (4300 by default) is not modelled: an account number
  read by the file parser has at most five characters.
\<close>

definition py_int :: "string \<Rightarrow> int option" where
  "py_int s =
     (case strip s of
        [] \<Rightarrow> None
      | c # r \<Rightarrow>
          if c = CHR ''-'' then map_option (\<lambda>n. - int n) (parse_digits 0 False r)
          else if c = CHR ''+'' then map_option int (parse_digits 0 False r)
          else map_option int (parse_digits 0 False (c # r)))"

text \<open>
  \<open>f"{x:.2f}"\<close>: the exact value of the float rounded to hundredths, ties to even,
  with at least one digit before the point and the sign of a negative value kept.
\<close>

definition format_2f :: "real \<Rightarrow> string" where
  "format_2f x =
     (let c = nat (round_half_even (\<bar>x\<bar> * 100));
          body = str_nat (c div 100) @ ''.'' @ [digit_char (c mod 100 div 10), digit_char (c mod 10)]
      in if x < 0 then CHR ''-'' # body else body)"

section \<open>account.py\<close>

record account =
  account_number :: string
  holder_name :: string
  status :: string
  balance :: real

definition is_disabled :: "account \<Rightarrow> bool" where
  "is_disabled a = (status a = ''D'')"

definition disable :: "account \<Rightarrow> account" where
  "disable a = a\<lparr>status := ''D''\<rparr>"

definition withdraw :: "account \<Rightarrow> real \<Rightarrow> bool \<times> account" where
  "withdraw a amt =
     (if balance a < amt then (False, a)
      else (True, a\<lparr>balance := float_sub (balance a) amt\<rparr>))"

definition deposit :: "account \<Rightarrow> real \<Rightarrow> account" where
  "deposit a amt = a\<lparr>balance := float_add (balance a) amt\<rparr>"

section \<open>transaction.py\<close>

text \<open>
  The field \<open>account_number\<close> of a Transaction is \<open>tx_account_number\<close> here, the
  name being taken by the Account record.
\<close>

record transaction =
  code :: string
  account_holder_name :: string
  tx_account_number :: string
  amount :: real
  misc :: string

definition CODES :: "(string \<times> string) list" where
  "CODES =
     [(''WITHDRAWAL'', ''01''), (''TRANSFER'', ''02''), (''PAYBILL'', ''03''),
      (''DEPOSIT'', ''04''), (''CREATE'', ''05''), (''DELETE'', ''06''),
      (''DISABLE'', ''07''), (''CHANGEPLAN'', ''08''), (''END_SESSION'', ''00'')]"

text \<open>\<open>CODES[key]\<close> for the keys the factories use; every one of them is in the table.\<close>

definition code_of :: "string \<Rightarrow> string" where
  "code_of k = (case map_of CODES k of Some c \<Rightarrow> c | None \<Rightarrow> [])"

definition Transaction :: "string \<Rightarrow> string \<Rightarrow> string \<Rightarrow> real \<Rightarrow> string \<Rightarrow> transaction" where
  "Transaction c name number amt m =
     \<lparr>code = c, account_holder_name = name, tx_account_number = number, amount = amt, misc = m\<rparr>"

definition to_file_string :: "transaction \<Rightarrow> string" where
  "to_file_string t =
     (let name = take 20 (ljust 20 (account_holder_name t));
          account_num = zfill 5 (tx_account_number t);
          amount_text = zfill 8 (format_2f (amount t));
          misc_text = take 2 (ljust 2 (misc t))
      in code t @ '' '' @ name @ '' '' @ account_num @ '' '' @ amount_text @ misc_text)"

definition create_withdrawal :: "string \<Rightarrow> string \<Rightarrow> real \<Rightarrow> transaction" where
  "create_withdrawal name number amt = Transaction (code_of ''WITHDRAWAL'') name number amt ''  ''"

definition create_transfer :: "string \<Rightarrow> string \<Rightarrow> string \<Rightarrow> real \<Rightarrow> transaction" where
  "create_transfer name from_account to_account amt =
     (let to_padded = zfill 5 to_account
      in Transaction (code_of ''TRANSFER'') name from_account amt (last_chars 2 to_padded))"

definition create_paybill :: "string \<Rightarrow> string \<Rightarrow> real \<Rightarrow> string \<Rightarrow> transaction" where
  "create_paybill name number amt company = Transaction (code_of ''PAYBILL'') name number amt company"

definition create_deposit :: "string \<Rightarrow> string \<Rightarrow> real \<Rightarrow> transaction" where
  "create_deposit name number amt = Transaction (code_of ''DEPOSIT'') name number amt ''  ''"

definition create_account :: "string \<Rightarrow> string \<Rightarrow> real \<Rightarrow> transaction" where
  "create_account name number initial_balance =
     Transaction (code_of ''CREATE'') name number initial_balance ''  ''"

definition create_delete :: "string \<Rightarrow> string \<Rightarrow> transaction" where
  "create_delete name number = Transaction (code_of ''DELETE'') name number 0 ''  ''"

definition create_disable :: "string \<Rightarrow> string \<Rightarrow> transaction" where
  "create_disable name number = Transaction (code_of ''DISABLE'') name number 0 ''  ''"

definition create_changeplan :: "string \<Rightarrow> string \<Rightarrow> transaction" where
  "create_changeplan name number = Transaction (code_of ''CHANGEPLAN'') name number 0 ''  ''"

definition create_end_session :: transaction where
  "create_end_session =
     Transaction (code_of ''END_SESSION'') (replicate 20 CHR '' '') ''00000'' 0 ''  ''"

section \<open>file_handler.py\<close>

definition generate_transaction_file :: "transaction list \<Rightarrow> string" where
  "generate_transaction_file txs =
     (let lines = map to_file_string txs @ [to_file_string create_end_session]
      in join [newline] lines @ [newline])"

section \<open>validator.py\<close>

definition MAX_WITHDRAWAL_STANDARD :: real where
  "MAX_WITHDRAWAL_STANDARD = 500"

definition MAX_TRANSFER_STANDARD :: real where
  "MAX_TRANSFER_STANDARD = 1000"

definition MAX_PAYBILL_STANDARD :: real where
  "MAX_PAYBILL_STANDARD = 2000"

text \<open>The literal \<open>99999.99\<close> is the float nearest to that decimal.\<close>

definition MAX_ACCOUNT_BALANCE :: real where
  "MAX_ACCOUNT_BALANCE = round_double (9999999 / 100)"

definition MAX_NAME_LENGTH :: nat where
  "MAX_NAME_LENGTH = 20"

definition VALID_COMPANIES :: "string set" where
  "VALID_COMPANIES = {''EC'', ''CQ'', ''FI''}"

definition validate_withdrawal :: "account option \<Rightarrow> real \<Rightarrow> bool \<Rightarrow> real \<Rightarrow> string option" where
  "validate_withdrawal acct amt admin session_total =
     (case acct of
        None \<Rightarrow> Some ''Account not found.''
      | Some a \<Rightarrow>
          if is_disabled a then Some ''Account is disabled.''
          else if amt \<le> 0 then Some ''Amount must be positive.''
          else if \<not> admin \<and> float_add session_total amt > MAX_WITHDRAWAL_STANDARD
            then Some (''Maximum withdrawal per session is $'' @ format_2f MAX_WITHDRAWAL_STANDARD @ ''.'')
          else if balance a < amt then Some ''Insufficient funds.''
          else None)"

definition validate_transfer ::
  "account option \<Rightarrow> account option \<Rightarrow> real \<Rightarrow> bool \<Rightarrow> real \<Rightarrow> string option" where
  "validate_transfer source target amt admin session_total =
     (case source of
        None \<Rightarrow> Some ''Source account not found.''
      | Some src \<Rightarrow>
          (case target of
             None \<Rightarrow> Some ''Destination account not found.''
           | Some tgt \<Rightarrow>
               if is_disabled src \<or> is_disabled tgt
                 then Some ''Source or destination account is disabled.''
               else if amt \<le> 0 then Some ''Amount must be positive.''
               else if \<not> admin \<and> float_add session_total amt > MAX_TRANSFER_STANDARD
                 then Some (''Maximum transfer per session is $'' @ format_2f MAX_TRANSFER_STANDARD @ ''.'')
               else if balance src < amt then Some ''Insufficient funds in source account.''
               else None))"

definition validate_paybill ::
  "account option \<Rightarrow> real \<Rightarrow> string \<Rightarrow> bool \<Rightarrow> real \<Rightarrow> string option" where
  "validate_paybill acct amt company admin session_total =
     (case acct of
        None \<Rightarrow> Some ''Account not found.''
      | Some a \<Rightarrow>
          if is_disabled a then Some ''Account is disabled.''
          else if company \<notin> VALID_COMPANIES then Some ''Invalid company code. Valid codes: EC, CQ, FI.''
          else if amt \<le> 0 then Some ''Amount must be positive.''
          else if \<not> admin \<and> float_add session_total amt > MAX_PAYBILL_STANDARD
            then Some (''Maximum paybill per session is $'' @ format_2f MAX_PAYBILL_STANDARD @ ''.'')
          else if balance a < amt then Some ''Insufficient funds.''
          else None)"

definition validate_deposit :: "account option \<Rightarrow> real \<Rightarrow> string option" where
  "validate_deposit acct amt =
     (case acct of
        None \<Rightarrow> Some ''Account not found.''
      | Some a \<Rightarrow>
          if is_disabled a then Some ''Account is disabled.''
          else if amt \<le> 0 then Some ''Amount must be positive.''
          else None)"

definition validate_create :: "string \<Rightarrow> real \<Rightarrow> bool \<Rightarrow> string option" where
  "validate_create name initial_balance account_exists =
     (if length name > MAX_NAME_LENGTH
        then Some (''Account holder name must be at most '' @ str_nat MAX_NAME_LENGTH @ '' characters.'')
      else if initial_balance < 0 then Some ''Initial balance cannot be negative.''
      else if initial_balance > MAX_ACCOUNT_BALANCE
        then Some (''Maximum account balance is $'' @ format_2f MAX_ACCOUNT_BALANCE @ ''.'')
      else if account_exists then Some ''Account number already exists.''
      else None)"

definition validate_account_exists :: "account option \<Rightarrow> string option" where
  "validate_account_exists acct =
     (case acct of None \<Rightarrow> Some ''Account not found.'' | Some a \<Rightarrow> None)"

definition validate_disable :: "account option \<Rightarrow> string option" where
  "validate_disable acct =
     (case acct of
        None \<Rightarrow> Some ''Account not found.''
      | Some a \<Rightarrow> if is_disabled a then Some ''Account is already disabled.'' else None)"

section \<open>banking_system.py\<close>

record banking_system =
  accounts :: "account list"
  transactions :: "transaction list"
  is_logged_in :: bool
  is_admin :: bool
  current_user :: "string option"
  session_withdrawals :: real
  session_transfers :: real
  session_paybills :: real

definition init :: banking_system where
  "init =
     \<lparr>accounts = [], transactions = [], is_logged_in = False, is_admin = False,
      current_user = None, session_withdrawals = 0, session_transfers = 0,
      session_paybills = 0\<rparr>"

text \<open>
  \<open>load_accounts\<close> stores what the file parser returns. The parser reads balances with
  \<open>float()\<close> and is not modelled: the parsed list is the argument.
\<close>

definition load_accounts :: "banking_system \<Rightarrow> account list \<Rightarrow> banking_system" where
  "load_accounts s parsed = s\<lparr>accounts := parsed\<rparr>"

text \<open>
  The two lookups return the first matching Account object of the list. An object is
  referred to by its position, so that a later mutation can be written as a list update.
\<close>

primrec find_first :: "('a \<Rightarrow> bool) \<Rightarrow> 'a list \<Rightarrow> nat option" where
  "find_first P [] = None"
| "find_first P (x # xs) = (if P x then Some 0 else map_option Suc (find_first P xs))"

definition find_account_by_number :: "banking_system \<Rightarrow> string \<Rightarrow> nat option" where
  "find_account_by_number s number =
     find_first (\<lambda>a. account_number a = number) (accounts s)"

definition find_user_account :: "banking_system \<Rightarrow> string option \<Rightarrow> string \<Rightarrow> nat option" where
  "find_user_account s name number =
     find_first (\<lambda>a. Some (holder_name a) = name \<and> account_number a = number) (accounts s)"

text \<open>The object behind a lookup result, as handed to the validator.\<close>

definition account_at :: "banking_system \<Rightarrow> nat option \<Rightarrow> account option" where
  "account_at s r = map_option (\<lambda>i. accounts s ! i) r"

text \<open>
  The expression \<open>holder_name if self.is_admin else (self.current_user or '')\<close> that
  opens the four money transactions.
\<close>

definition acting_owner :: "banking_system \<Rightarrow> string option \<Rightarrow> string option" where
  "acting_owner s holder =
     (if is_admin s then holder
      else Some (case current_user s of None \<Rightarrow> [] | Some u \<Rightarrow> u))"

definition process_login :: "banking_system \<Rightarrow> string \<Rightarrow> string option \<Rightarrow> reply \<times> banking_system" where
  "process_login s mode user_name =
     (if is_logged_in s then (Inr (False, ''Already logged in. Please logout first.''), s)
      else if mode = ''admin'' then
        (Inr (True, ''Admin session started.''),
         s\<lparr>is_logged_in := True, is_admin := True, current_user := Some ''Admin''\<rparr>)
      else if mode = ''standard'' then
        (case user_name of
           None \<Rightarrow> (Inr (False, ''Account holder name required for standard login.''), s)
         | Some u \<Rightarrow>
             if u = [] then (Inr (False, ''Account holder name required for standard login.''), s)
             else
               (Inr (True, ''Standard user '' @ u @ '' logged in.''),
                s\<lparr>is_logged_in := True, is_admin := False, current_user := Some u\<rparr>))
      else
        (Inr (False,
           ''Invalid login mode. Use '' @ [dquote] @ ''standard'' @ [dquote] @ '' or ''
             @ [dquote] @ ''admin'' @ [dquote] @ ''.''), s))"

definition process_logout :: "banking_system \<Rightarrow> reply \<times> banking_system" where
  "process_logout s =
     (if \<not> is_logged_in s then (Inr (False, ''Not logged in.''), s)
      else
        (Inr (True, ''Session ended. Transaction file ready for download.''),
         s\<lparr>is_logged_in := False, is_admin := False, current_user := None,
           session_withdrawals := 0, session_transfers := 0, session_paybills := 0\<rparr>))"

text \<open>
  After a validator has accepted, the account is dereferenced. On \<open>None\<close> Python raises
  AttributeError at \<open>account.withdraw\<close>; the branch is kept, and shown below never to be
  taken. A resolved account with owner \<open>None\<close> cannot occur either (the lookup compares
  the owner with a holder name); the model reports it as TypeError.
\<close>

definition process_withdrawal ::
  "banking_system \<Rightarrow> string \<Rightarrow> real \<Rightarrow> string option \<Rightarrow> reply \<times> banking_system" where
  "process_withdrawal s number amt holder =
     (if \<not> is_logged_in s then (Inr (False, ''Must be logged in to perform transactions.''), s)
      else
        let owner = acting_owner s holder;
            acct = find_user_account s owner number
        in case validate_withdrawal (account_at s acct) amt (is_admin s) (session_withdrawals s) of
             Some error \<Rightarrow> (Inr (False, error), s)
           | None \<Rightarrow>
               (case acct of
                  None \<Rightarrow> (Inl AttributeError, s)
                | Some i \<Rightarrow>
                    (case owner of
                       None \<Rightarrow> (Inl TypeError, s)
                     | Some name \<Rightarrow>
                         let s1 = s\<lparr>accounts := (accounts s)[i := snd (withdraw (accounts s ! i) amt)]\<rparr>;
                             s2 = s1\<lparr>session_withdrawals := float_add (session_withdrawals s1) amt\<rparr>;
                             s3 = s2\<lparr>transactions := transactions s2 @ [create_withdrawal name number amt]\<rparr>
                         in (Inr (True,
                               ''Withdrawal of $'' @ format_2f amt @ '' successful. New balance: $''
                                 @ format_2f (balance (accounts s3 ! i))), s3))))"

definition process_transfer ::
  "banking_system \<Rightarrow> string \<Rightarrow> string \<Rightarrow> real \<Rightarrow> string option \<Rightarrow> reply \<times> banking_system" where
  "process_transfer s source_number target_number amt holder =
     (if \<not> is_logged_in s then (Inr (False, ''Must be logged in to perform transactions.''), s)
      else
        let owner = acting_owner s holder;
            source = find_user_account s owner source_number;
            target = find_account_by_number s target_number
        in case validate_transfer (account_at s source) (account_at s target) amt (is_admin s)
                  (session_transfers s) of
             Some error \<Rightarrow> (Inr (False, error), s)
           | None \<Rightarrow>
               (case source of
                  None \<Rightarrow> (Inl AttributeError, s)
                | Some i \<Rightarrow>
                    (case target of
                       None \<Rightarrow> (Inl AttributeError, s)
                     | Some j \<Rightarrow>
                         (case owner of
                            None \<Rightarrow> (Inl TypeError, s)
                          | Some name \<Rightarrow>
                              let s1 = s\<lparr>accounts := (accounts s)[i := snd (withdraw (accounts s ! i) amt)]\<rparr>;
                                  s2 = s1\<lparr>accounts := (accounts s1)[j := deposit (accounts s1 ! j) amt]\<rparr>;
                                  s3 = s2\<lparr>session_transfers := float_add (session_transfers s2) amt\<rparr>;
                                  s4 = s3\<lparr>transactions := transactions s3
                                          @ [create_transfer name source_number target_number amt]\<rparr>
                              in (Inr (True, ''Transfer of $'' @ format_2f amt @ '' successful.''), s4)))))"

definition process_paybill ::
  "banking_system \<Rightarrow> string \<Rightarrow> real \<Rightarrow> string \<Rightarrow> string option \<Rightarrow> reply \<times> banking_system" where
  "process_paybill s number amt company holder =
     (if \<not> is_logged_in s then (Inr (False, ''Must be logged in to perform transactions.''), s)
      else
        let owner = acting_owner s holder;
            acct = find_user_account s owner number
        in case validate_paybill (account_at s acct) amt company (is_admin s) (session_paybills s) of
             Some error \<Rightarrow> (Inr (False, error), s)
           | None \<Rightarrow>
               (case acct of
                  None \<Rightarrow> (Inl AttributeError, s)
                | Some i \<Rightarrow>
                    (case owner of
                       None \<Rightarrow> (Inl TypeError, s)
                     | Some name \<Rightarrow>
                         let s1 = s\<lparr>accounts := (accounts s)[i := snd (withdraw (accounts s ! i) amt)]\<rparr>;
                             s2 = s1\<lparr>session_paybills := float_add (session_paybills s1) amt\<rparr>;
                             s3 = s2\<lparr>transactions := transactions s2 @ [create_paybill name number amt company]\<rparr>
                         in (Inr (True,
                               ''Bill payment of $'' @ format_2f amt @ '' to '' @ company @ '' successful.''),
                             s3))))"

definition process_deposit ::
  "banking_system \<Rightarrow> string \<Rightarrow> real \<Rightarrow> string option \<Rightarrow> reply \<times> banking_system" where
  "process_deposit s number amt holder =
     (if \<not> is_logged_in s then (Inr (False, ''Must be logged in to perform transactions.''), s)
      else
        let owner = acting_owner s holder;
            acct = find_user_account s owner number
        in case validate_deposit (account_at s acct) amt of
             Some error \<Rightarrow> (Inr (False, error), s)
           | None \<Rightarrow>
               (case owner of
                  None \<Rightarrow> (Inl TypeError, s)
                | Some name \<Rightarrow>
                    (Inr (True, ''Deposit of $'' @ format_2f amt @ '' accepted (available next session).''),
                     s\<lparr>transactions := transactions s @ [create_deposit name number amt]\<rparr>)))"

text \<open>
  The loop of \<open>_generate_account_number\<close>: an account number that \<open>int()\<close> rejects is
  skipped, a larger value replaces the maximum.
\<close>

fun max_account_number :: "int \<Rightarrow> account list \<Rightarrow> int" where
  "max_account_number max_number [] = max_number"
| "max_account_number max_number (a # rest) =
     (case py_int (account_number a) of
        None \<Rightarrow> max_account_number max_number rest
      | Some v \<Rightarrow>
          if v > max_number then max_account_number v rest
          else max_account_number max_number rest)"

definition generate_account_number :: "banking_system \<Rightarrow> string" where
  "generate_account_number s = zfill 5 (str_int (max_account_number 0 (accounts s) + 1))"

definition process_create :: "banking_system \<Rightarrow> string \<Rightarrow> real \<Rightarrow> reply \<times> banking_system" where
  "process_create s name initial_balance =
     (if \<not> is_logged_in s then (Inr (False, ''Must be logged in to perform transactions.''), s)
      else if \<not> is_admin s then
        (Inr (False, ''Create account is a privileged transaction. Admin access required.''), s)
      else
        let new_number = generate_account_number s;
            exists = (find_account_by_number s new_number \<noteq> None)
        in case validate_create name initial_balance exists of
             Some error \<Rightarrow> (Inr (False, error), s)
           | None \<Rightarrow>
               (Inr (True,
                  ''Account '' @ new_number @ '' created for '' @ name @ '' (available next session).''),
                s\<lparr>transactions := transactions s @ [create_account name new_number initial_balance]\<rparr>))"

definition process_delete :: "banking_system \<Rightarrow> string \<Rightarrow> string \<Rightarrow> reply \<times> banking_system" where
  "process_delete s name number =
     (if \<not> is_logged_in s then (Inr (False, ''Must be logged in to perform transactions.''), s)
      else if \<not> is_admin s then
        (Inr (False, ''Delete account is a privileged transaction. Admin access required.''), s)
      else
        let acct = find_user_account s (Some name) number
        in case validate_account_exists (account_at s acct) of
             Some error \<Rightarrow> (Inr (False, error), s)
           | None \<Rightarrow>
               let s1 = s\<lparr>accounts :=
                          filter (\<lambda>a. \<not> (holder_name a = name \<and> account_number a = number)) (accounts s)\<rparr>;
                   s2 = s1\<lparr>transactions := transactions s1 @ [create_delete name number]\<rparr>
               in (Inr (True, ''Account '' @ number @ '' for '' @ name @ '' deleted.''), s2))"

definition process_disable :: "banking_system \<Rightarrow> string \<Rightarrow> string \<Rightarrow> reply \<times> banking_system" where
  "process_disable s name number =
     (if \<not> is_logged_in s then (Inr (False, ''Must be logged in to perform transactions.''), s)
      else if \<not> is_admin s then
        (Inr (False, ''Disable account is a privileged transaction. Admin access required.''), s)
      else
        let acct = find_user_account s (Some name) number
        in case validate_disable (account_at s acct) of
             Some error \<Rightarrow> (Inr (False, error), s)
           | None \<Rightarrow>
               (case acct of
                  None \<Rightarrow> (Inl AttributeError, s)
                | Some i \<Rightarrow>
                    let s1 = s\<lparr>accounts := (accounts s)[i := disable (accounts s ! i)]\<rparr>;
                        s2 = s1\<lparr>transactions := transactions s1 @ [create_disable name number]\<rparr>
                    in (Inr (True, ''Account '' @ number @ '' for '' @ name @ '' disabled.''), s2)))"

definition process_changeplan :: "banking_system \<Rightarrow> string \<Rightarrow> string \<Rightarrow> reply \<times> banking_system" where
  "process_changeplan s name number =
     (if \<not> is_logged_in s then (Inr (False, ''Must be logged in to perform transactions.''), s)
      else if \<not> is_admin s then
        (Inr (False, ''Change plan is a privileged transaction. Admin access required.''), s)
      else
        let acct = find_user_account s (Some name) number
        in case validate_account_exists (account_at s acct) of
             Some error \<Rightarrow> (Inr (False, error), s)
           | None \<Rightarrow>
               (Inr (True, ''Payment plan changed for account '' @ number @ ''.''),
                s\<lparr>transactions := transactions s @ [create_changeplan name number]\<rparr>))"

subsection \<open>The operation surface, and runs of the controller\<close>

text \<open>
  One constructor per \<open>process_*\<close> method with its arguments, so that a property of every
  operation is one statement. An event is what the console layer does to the
  controller: it loads an accounts file or calls an operation. A run starts from the
  freshly constructed controller.
\<close>

datatype request =
    Login string "string option"
  | Logout
  | Withdrawal string real "string option"
  | Transfer string string real "string option"
  | Paybill string real string "string option"
  | Deposit string real "string option"
  | Create string real
  | Delete string string
  | Disable string string
  | Changeplan string string

fun process :: "banking_system \<Rightarrow> request \<Rightarrow> reply \<times> banking_system" where
  "process s (Login mode user_name) = process_login s mode user_name"
| "process s Logout = process_logout s"
| "process s (Withdrawal number amt holder) = process_withdrawal s number amt holder"
| "process s (Transfer source_number target_number amt holder) =
     process_transfer s source_number target_number amt holder"
| "process s (Paybill number amt company holder) = process_paybill s number amt company holder"
| "process s (Deposit number amt holder) = process_deposit s number amt holder"
| "process s (Create name initial_balance) = process_create s name initial_balance"
| "process s (Delete name number) = process_delete s name number"
| "process s (Disable name number) = process_disable s name number"
| "process s (Changeplan name number) = process_changeplan s name number"

datatype event = Load "account list" | Call request

fun apply_event :: "banking_system \<Rightarrow> event \<Rightarrow> banking_system" where
  "apply_event s (Load parsed) = load_accounts s parsed"
| "apply_event s (Call r) = snd (process s r)"

definition run :: "event list \<Rightarrow> banking_system" where
  "run evs = foldl apply_event init evs"

section \<open>Notions used to state the properties\<close>

text \<open>The value of a string of decimal digits, read from the left.\<close>

definition digits_value :: "nat \<Rightarrow> string \<Rightarrow> nat" where
  "digits_value acc cs = foldl (\<lambda>a c. a * 10 + digit_val c) acc cs"

definition totals_zero :: "banking_system \<Rightarrow> bool" where
  "totals_zero s =
     (session_withdrawals s = 0 \<and> session_transfers s = 0 \<and> session_paybills s = 0)"

definition within_caps :: "banking_system \<Rightarrow> bool" where
  "within_caps s =
     (session_withdrawals s \<le> MAX_WITHDRAWAL_STANDARD
      \<and> session_transfers s \<le> MAX_TRANSFER_STANDARD
      \<and> session_paybills s \<le> MAX_PAYBILL_STANDARD)"

text \<open>
  What holds of the session fields in every run: outside an admin session the totals
  are within the caps, and while nobody is logged in they are zero.
\<close>

definition session_inv :: "banking_system \<Rightarrow> bool" where
  "session_inv s =
     ((\<not> is_admin s \<longrightarrow> within_caps s)
      \<and> (\<not> is_logged_in s \<longrightarrow> \<not> is_admin s \<and> totals_zero s))"

text \<open>
  How an operation may change the log: it appends nothing or one record, and a record
  it appends carries a two-character code other than the End-Session code.
\<close>

definition appends_records :: "transaction list \<Rightarrow> transaction list \<Rightarrow> bool" where
  "appends_records old new =
     (\<exists>added. new = old @ added \<and> length added \<le> 1
        \<and> (\<forall>t \<in> set added. length (code t) = 2 \<and> code t \<noteq> ''00''))"

subsection \<open>The rule order of the specification\<close>

text \<open>
  The specification groups the rules of a validator into five kinds and fixes their
  order: existence of the account, disabled status, the checks particular to the
  transaction (positive amount, company code), the session cap, and last the balance.
  The definitions below follow that wording; they are compared with the validators of
  the source further down. When several rules are violated, the message surfaced is
  that of the first violated kind.
\<close>

datatype rule = Existence | DisabledStatus | DomainSpecific | SessionCap | BalanceSufficiency

definition rule_order :: "rule list" where
  "rule_order = [Existence, DisabledStatus, DomainSpecific, SessionCap, BalanceSufficiency]"

definition surfaced_rule :: "(rule \<Rightarrow> bool) \<Rightarrow> rule option" where
  "surfaced_rule violated = find violated rule_order"

fun withdrawal_violated :: "account option \<Rightarrow> real \<Rightarrow> bool \<Rightarrow> real \<Rightarrow> rule \<Rightarrow> bool" where
  "withdrawal_violated acct amt admin tot Existence = (acct = None)"
| "withdrawal_violated acct amt admin tot DisabledStatus =
     (case acct of None \<Rightarrow> False | Some a \<Rightarrow> is_disabled a)"
| "withdrawal_violated acct amt admin tot DomainSpecific = (\<not> 0 < amt)"
| "withdrawal_violated acct amt admin tot SessionCap = (\<not> admin \<and> 500 < float_add tot amt)"
| "withdrawal_violated acct amt admin tot BalanceSufficiency =
     (case acct of None \<Rightarrow> False | Some a \<Rightarrow> balance a < amt)"

fun withdrawal_message :: "rule \<Rightarrow> string" where
  "withdrawal_message Existence = ''Account not found.''"
| "withdrawal_message DisabledStatus = ''Account is disabled.''"
| "withdrawal_message DomainSpecific = ''Amount must be positive.''"
| "withdrawal_message SessionCap = ''Maximum withdrawal per session is $500.00.''"
| "withdrawal_message BalanceSufficiency = ''Insufficient funds.''"

fun transfer_violated ::
  "account option \<Rightarrow> account option \<Rightarrow> real \<Rightarrow> bool \<Rightarrow> real \<Rightarrow> rule \<Rightarrow> bool" where
  "transfer_violated source target amt admin tot Existence = (source = None \<or> target = None)"
| "transfer_violated source target amt admin tot DisabledStatus =
     ((case source of None \<Rightarrow> False | Some a \<Rightarrow> is_disabled a)
      \<or> (case target of None \<Rightarrow> False | Some b \<Rightarrow> is_disabled b))"
| "transfer_violated source target amt admin tot DomainSpecific = (\<not> 0 < amt)"
| "transfer_violated source target amt admin tot SessionCap = (\<not> admin \<and> 1000 < float_add tot amt)"
| "transfer_violated source target amt admin tot BalanceSufficiency =
     (case source of None \<Rightarrow> False | Some a \<Rightarrow> balance a < amt)"

fun transfer_message :: "account option \<Rightarrow> rule \<Rightarrow> string" where
  "transfer_message source Existence =
     (if source = None then ''Source account not found.'' else ''Destination account not found.'')"
| "transfer_message source DisabledStatus = ''Source or destination account is disabled.''"
| "transfer_message source DomainSpecific = ''Amount must be positive.''"
| "transfer_message source SessionCap = ''Maximum transfer per session is $1000.00.''"
| "transfer_message source BalanceSufficiency = ''Insufficient funds in source account.''"

fun paybill_violated ::
  "account option \<Rightarrow> real \<Rightarrow> string \<Rightarrow> bool \<Rightarrow> real \<Rightarrow> rule \<Rightarrow> bool" where
  "paybill_violated acct amt company admin tot Existence = (acct = None)"
| "paybill_violated acct amt company admin tot DisabledStatus =
     (case acct of None \<Rightarrow> False | Some a \<Rightarrow> is_disabled a)"
| "paybill_violated acct amt company admin tot DomainSpecific =
     (company \<notin> {''EC'', ''CQ'', ''FI''} \<or> \<not> 0 < amt)"
| "paybill_violated acct amt company admin tot SessionCap = (\<not> admin \<and> 2000 < float_add tot amt)"
| "paybill_violated acct amt company admin tot BalanceSufficiency =
     (case acct of None \<Rightarrow> False | Some a \<Rightarrow> balance a < amt)"

fun paybill_message :: "string \<Rightarrow> rule \<Rightarrow> string" where
  "paybill_message company Existence = ''Account not found.''"
| "paybill_message company DisabledStatus = ''Account is disabled.''"
| "paybill_message company DomainSpecific =
     (if company \<notin> {''EC'', ''CQ'', ''FI''} then ''Invalid company code. Valid codes: EC, CQ, FI.''
      else ''Amount must be positive.'')"
| "paybill_message company SessionCap = ''Maximum paybill per session is $2000.00.''"
| "paybill_message company BalanceSufficiency = ''Insufficient funds.''"

fun deposit_violated :: "account option \<Rightarrow> real \<Rightarrow> rule \<Rightarrow> bool" where
  "deposit_violated acct amt Existence = (acct = None)"
| "deposit_violated acct amt DisabledStatus =
     (case acct of None \<Rightarrow> False | Some a \<Rightarrow> is_disabled a)"
| "deposit_violated acct amt DomainSpecific = (\<not> 0 < amt)"
| "deposit_violated acct amt SessionCap = False"
| "deposit_violated acct amt BalanceSufficiency = False"

subsection \<open>Sample data\<close>

definition alice :: account where
  "alice = \<lparr>account_number = ''00001'', holder_name = ''Alice'', status = ''A'', balance = 1000\<rparr>"

definition bob :: account where
  "bob = \<lparr>account_number = ''00002'', holder_name = ''Bob'', status = ''A'', balance = 50\<rparr>"

definition dora :: account where
  "dora = \<lparr>account_number = ''00009'', holder_name = ''Dora'', status = ''A'',
            balance = 10000000000000000\<rparr>"

definition dora_session :: banking_system where
  "dora_session = run [Load [dora], Call (Login ''standard'' (Some ''Dora''))]"

definition alice_session :: banking_system where
  "alice_session = run [Load [alice, bob], Call (Login ''standard'' (Some ''Alice''))]"

definition admin_session :: banking_system where
  "admin_session = run [Load [alice, bob], Call (Login ''admin'' None)]"

section \<open>Float arithmetic on whole numbers\<close>

lemma bit_length_0: "bit_length 0 = 0"
  by (simp add: bit_length.simps)

lemma bit_length_pos: "n \<noteq> 0 \<Longrightarrow> bit_length n = Suc (bit_length (n div 2))"
  by (subst bit_length.simps) simp

lemmas double_eval = float_add_def float_sub_def round_double_def binary_exponent_def pow2_def
  round_half_even_def bit_length_0 bit_length_pos

lemma bit_length_bound: "n < 2 ^ k \<Longrightarrow> bit_length n \<le> k"
proof (induction k arbitrary: n)
  case 0
  then show ?case by (simp add: bit_length_0)
next
  case (Suc k)
  show ?case
  proof (cases "n = 0")
    case True
    then show ?thesis by (simp add: bit_length_0)
  next
    case False
    from Suc.prems have "n div 2 < 2 ^ k" by simp
    from Suc.IH [OF this] False show ?thesis by (simp add: bit_length_pos)
  qed
qed

lemma round_half_even_int: "round_half_even (of_int z) = z"
  by (simp add: round_half_even_def)

text \<open>A whole number below \<open>2 ^ 53\<close> in magnitude is a float.\<close>

lemma round_double_nat:
  assumes "0 < n" and "n < 2 ^ 53"
  shows "round_double (real n) = real n" and "round_double (- real n) = - real n"
proof -
  define e where "e = max (binary_exponent (real n) - 52) (- 1074)"
  have "bit_length n \<le> 53" using assms(2) by (rule bit_length_bound)
  with assms(1) have "binary_exponent (real n) - 52 \<le> 0"
    by (simp add: binary_exponent_def)
  then have e: "e \<le> 0" by (simp add: e_def)
  define j where "j = nat (- e)"
  have p: "pow2 e = 1 / 2 ^ j"
  proof (cases "e = 0")
    case True
    then show ?thesis by (simp add: pow2_def j_def)
  next
    case False
    with e show ?thesis by (simp add: pow2_def j_def)
  qed
  have q: "real n / pow2 e = of_int (int n * 2 ^ j)" by (simp add: p)
  have m: "round_half_even (real n / pow2 e) = int n * 2 ^ j"
    unfolding q by (rule round_half_even_int)
  from assms(1) show "round_double (real n) = real n"
    by (simp add: round_double_def Let_def e_def [symmetric] m) (simp add: p)
  from assms(1) show "round_double (- real n) = - real n"
    by (simp add: round_double_def Let_def e_def [symmetric] m) (simp add: p)
qed

lemma round_double_int: "\<bar>n\<bar> < 2 ^ 53 \<Longrightarrow> round_double (of_int n) = of_int n"
proof -
  assume a: "\<bar>n\<bar> < 2 ^ 53"
  consider "n = 0" | "0 < n" | "n < 0" by linarith
  then show ?thesis
  proof cases
    case 1
    then show ?thesis by (simp add: round_double_def)
  next
    case 2
    with a have "0 < nat n" "nat n < 2 ^ 53" by (simp_all add: nat_less_iff)
    from round_double_nat(1) [OF this] 2 show ?thesis by simp
  next
    case 3
    with a have "0 < nat (- n)" "nat (- n) < 2 ^ 53" by (simp_all add: nat_less_iff)
    from round_double_nat(2) [OF this] 3 show ?thesis by simp
  qed
qed

lemma round_double_numeral:
  "(numeral k :: int) < 2 ^ 53 \<Longrightarrow> round_double (numeral k) = numeral k"
  using round_double_int [of "numeral k"] by simp

lemma round_double_0: "round_double 0 = 0"
  by (simp add: round_double_def)

lemma round_double_1: "round_double 1 = 1"
  using round_double_int [of 1] by simp

lemmas float_eval = float_add_def float_sub_def round_double_numeral round_double_0 round_double_1

lemma float_sub_int:
  "\<bar>b - a\<bar> < 2 ^ 53 \<Longrightarrow> float_sub (of_int b) (of_int a) = of_int b - of_int a"
  using round_double_int [of "b - a"] by (simp add: float_sub_def)

lemma float_add_int:
  "\<bar>b + a\<bar> < 2 ^ 53 \<Longrightarrow> float_add (of_int b) (of_int a) = of_int b + of_int a"
  using round_double_int [of "b + a"] by (simp add: float_add_def)

text \<open>Beyond \<open>2 ^ 53\<close> a small amount is lost: \<open>1e16 - 1.0\<close> and \<open>1e16 + 1.0\<close> are \<open>1e16\<close>.\<close>

lemma float_sub_absorbs: "float_sub 10000000000000000 1 = 10000000000000000"
  by (simp add: double_eval)

lemma float_add_absorbs: "float_add 10000000000000000 1 = 10000000000000000"
  by (simp add: double_eval)

lemma max_account_balance_value: "MAX_ACCOUNT_BALANCE = 6871946986405233 / 68719476736"
  by (simp add: MAX_ACCOUNT_BALANCE_def double_eval)

section \<open>Evaluating the model on concrete data\<close>

lemma digit_char_simps:
  "digit_char 0 = CHR ''0''" "digit_char 1 = CHR ''1''" "digit_char 2 = CHR ''2''"
  "digit_char 3 = CHR ''3''" "digit_char 4 = CHR ''4''" "digit_char 5 = CHR ''5''"
  "digit_char 6 = CHR ''6''" "digit_char 7 = CHR ''7''" "digit_char 8 = CHR ''8''"
  "digit_char 9 = CHR ''9''" "digit_char (Suc 0) = CHR ''1''"
proof -
  have c: "\<And>c n. of_char c = (n::nat) \<Longrightarrow> char_of n = c" by auto
  show "digit_char 0 = CHR ''0''" "digit_char 1 = CHR ''1''" "digit_char 2 = CHR ''2''"
    "digit_char 3 = CHR ''3''" "digit_char 4 = CHR ''4''" "digit_char 5 = CHR ''5''"
    "digit_char 6 = CHR ''6''" "digit_char 7 = CHR ''7''" "digit_char 8 = CHR ''8''"
    "digit_char 9 = CHR ''9''" "digit_char (Suc 0) = CHR ''1''"
    unfolding digit_char_def by (rule c, simp)+
qed

lemma replicate_numeral: "replicate (numeral k) x = x # replicate (pred_numeral k) x"
  by (simp add: numeral_eq_Suc)

lemma take_numeral_Cons: "take (numeral k) (x # xs) = x # take (pred_numeral k) xs"
  by (simp add: numeral_eq_Suc)

lemma drop_numeral_Cons: "drop (numeral k) (x # xs) = drop (pred_numeral k) xs"
  by (simp add: numeral_eq_Suc)

lemmas list_eval = replicate_numeral take_numeral_Cons drop_numeral_Cons

lemma str_nat_small: "n < 10 \<Longrightarrow> str_nat n = [digit_char n]"
  by (subst str_nat.simps) simp

lemma str_nat_large: "\<not> n < 10 \<Longrightarrow> str_nat n = str_nat (n div 10) @ [digit_char (n mod 10)]"
  by (subst str_nat.simps) simp

lemmas format_eval = format_2f_def round_half_even_def str_nat_small str_nat_large digit_char_simps

lemma format_caps:
  "format_2f MAX_WITHDRAWAL_STANDARD = ''500.00''"
  "format_2f MAX_TRANSFER_STANDARD = ''1000.00''"
  "format_2f MAX_PAYBILL_STANDARD = ''2000.00''"
  by (simp_all add: MAX_WITHDRAWAL_STANDARD_def MAX_TRANSFER_STANDARD_def
        MAX_PAYBILL_STANDARD_def format_eval)

lemma alice_session_eq:
  "alice_session =
     \<lparr>accounts = [alice, bob], transactions = [], is_logged_in = True, is_admin = False,
      current_user = Some ''Alice'', session_withdrawals = 0, session_transfers = 0,
      session_paybills = 0\<rparr>"
  by (simp add: alice_session_def run_def init_def load_accounts_def process_login_def)

lemma dora_session_eq:
  "dora_session =
     \<lparr>accounts = [dora], transactions = [], is_logged_in = True, is_admin = False,
      current_user = Some ''Dora'', session_withdrawals = 0, session_transfers = 0,
      session_paybills = 0\<rparr>"
  by (simp add: dora_session_def run_def init_def load_accounts_def process_login_def)

lemma admin_session_eq:
  "admin_session =
     \<lparr>accounts = [alice, bob], transactions = [], is_logged_in = True, is_admin = True,
      current_user = Some ''Admin'', session_withdrawals = 0, session_transfers = 0,
      session_paybills = 0\<rparr>"
  by (simp add: admin_session_def run_def init_def load_accounts_def process_login_def)

lemmas lookup_eval = acting_owner_def find_user_account_def find_account_by_number_def
  account_at_def alice_def bob_def is_disabled_def float_eval

section \<open>Lookups and validators\<close>

lemma find_first_Some:
  "find_first P xs = Some i \<Longrightarrow> i < length xs \<and> P (xs ! i)"
  by (induction xs arbitrary: i) (auto split: if_splits)

lemma find_first_None: "(find_first P xs = None) = (\<forall>x \<in> set xs. \<not> P x)"
  by (induction xs) auto

lemma find_user_account_no_owner: "find_user_account s None number = None"
  by (simp add: find_user_account_def find_first_None)

lemma validate_withdrawal_accepts:
  "validate_withdrawal acct amt admin tot = None \<Longrightarrow>
     \<exists>a. acct = Some a \<and> \<not> is_disabled a \<and> 0 < amt \<and> \<not> balance a < amt
       \<and> (admin \<or> \<not> float_add tot amt > MAX_WITHDRAWAL_STANDARD)"
  by (auto simp: validate_withdrawal_def split: option.splits if_splits)

lemma validate_transfer_accepts:
  "validate_transfer source target amt admin tot = None \<Longrightarrow>
     \<exists>a b. source = Some a \<and> target = Some b \<and> \<not> is_disabled a \<and> \<not> is_disabled b
       \<and> 0 < amt \<and> \<not> balance a < amt
       \<and> (admin \<or> \<not> float_add tot amt > MAX_TRANSFER_STANDARD)"
  by (auto simp: validate_transfer_def split: option.splits if_splits)

lemma validate_paybill_accepts:
  "validate_paybill acct amt company admin tot = None \<Longrightarrow>
     \<exists>a. acct = Some a \<and> \<not> is_disabled a \<and> company \<in> VALID_COMPANIES \<and> 0 < amt
       \<and> \<not> balance a < amt \<and> (admin \<or> \<not> float_add tot amt > MAX_PAYBILL_STANDARD)"
  by (auto simp: validate_paybill_def split: option.splits if_splits)

section \<open>No operation raises\<close>

text \<open>
  The branches of the operations that stand for a Python exception are never taken:
  a validator that accepts has been given an account, and an account is only found
  for an owner that is a name.
\<close>

lemma validate_deposit_accepts:
  "validate_deposit acct amt = None \<Longrightarrow> \<exists>a. acct = Some a \<and> \<not> is_disabled a \<and> 0 < amt"
  by (auto simp: validate_deposit_def split: option.splits if_splits)

lemma validate_disable_accepts:
  "validate_disable acct = None \<Longrightarrow> \<exists>a. acct = Some a \<and> \<not> is_disabled a"
  by (auto simp: validate_disable_def split: option.splits if_splits)

lemma account_at_None: "(account_at s r = None) = (r = None)"
  by (simp add: account_at_def)

lemma process_withdrawal_returns: "fst (process_withdrawal s number amt holder) \<noteq> Inl e"
  by (cases "acting_owner s holder")
     (auto simp: process_withdrawal_def Let_def find_user_account_no_owner account_at_def
        split: option.splits dest!: validate_withdrawal_accepts)

lemma process_transfer_returns: "fst (process_transfer s number target amt holder) \<noteq> Inl e"
  by (cases "acting_owner s holder")
     (auto simp: process_transfer_def Let_def find_user_account_no_owner account_at_def
        split: option.splits dest!: validate_transfer_accepts)

lemma process_paybill_returns: "fst (process_paybill s number amt company holder) \<noteq> Inl e"
  by (cases "acting_owner s holder")
     (auto simp: process_paybill_def Let_def find_user_account_no_owner account_at_def
        split: option.splits dest!: validate_paybill_accepts)

lemma process_deposit_returns: "fst (process_deposit s number amt holder) \<noteq> Inl e"
  by (cases "acting_owner s holder")
     (auto simp: process_deposit_def Let_def find_user_account_no_owner account_at_def
        split: option.splits dest!: validate_deposit_accepts)

lemma process_disable_returns: "fst (process_disable s name number) \<noteq> Inl e"
  by (auto simp: process_disable_def Let_def account_at_def
        split: option.splits dest!: validate_disable_accepts)

lemma process_returns: "fst (process s r) \<noteq> Inl e"
proof (cases r)
  case (Login mode user_name)
  then show ?thesis by (simp add: process_login_def split: option.splits)
next
  case Logout
  then show ?thesis by (simp add: process_logout_def)
next
  case (Withdrawal number amt holder)
  then show ?thesis by (simp add: process_withdrawal_returns)
next
  case (Transfer number target amt holder)
  then show ?thesis by (simp add: process_transfer_returns)
next
  case (Paybill number amt company holder)
  then show ?thesis by (simp add: process_paybill_returns)
next
  case (Deposit number amt holder)
  then show ?thesis by (simp add: process_deposit_returns)
next
  case (Create name bal)
  then show ?thesis by (simp add: process_create_def Let_def split: option.splits)
next
  case (Delete name number)
  then show ?thesis by (simp add: process_delete_def Let_def split: option.splits)
next
  case (Disable name number)
  then show ?thesis by (simp add: process_disable_returns)
next
  case (Changeplan name number)
  then show ?thesis by (simp add: process_changeplan_def Let_def split: option.splits)
qed

section \<open>Failed operations leave the controller as it was\<close>

lemma process_login_failure:
  "fst (process_login s mode user_name) = Inr (False, msg) \<Longrightarrow>
     snd (process_login s mode user_name) = s"
  by (auto simp: process_login_def split: if_splits option.splits)

lemma process_logout_failure:
  "fst (process_logout s) = Inr (False, msg) \<Longrightarrow> snd (process_logout s) = s"
  by (auto simp: process_logout_def split: if_splits)

lemma process_withdrawal_failure:
  "fst (process_withdrawal s number amt holder) = Inr (False, msg) \<Longrightarrow>
     snd (process_withdrawal s number amt holder) = s"
  by (auto simp: process_withdrawal_def Let_def split: if_splits option.splits)

lemma process_transfer_failure:
  "fst (process_transfer s n1 n2 amt holder) = Inr (False, msg) \<Longrightarrow>
     snd (process_transfer s n1 n2 amt holder) = s"
  by (auto simp: process_transfer_def Let_def split: if_splits option.splits)

lemma process_paybill_failure:
  "fst (process_paybill s number amt company holder) = Inr (False, msg) \<Longrightarrow>
     snd (process_paybill s number amt company holder) = s"
  by (auto simp: process_paybill_def Let_def split: if_splits option.splits)

lemma process_deposit_failure:
  "fst (process_deposit s number amt holder) = Inr (False, msg) \<Longrightarrow>
     snd (process_deposit s number amt holder) = s"
  by (auto simp: process_deposit_def Let_def split: if_splits option.splits)

lemma process_create_failure:
  "fst (process_create s name bal) = Inr (False, msg) \<Longrightarrow> snd (process_create s name bal) = s"
  by (auto simp: process_create_def Let_def split: if_splits option.splits)

lemma process_delete_failure:
  "fst (process_delete s name number) = Inr (False, msg) \<Longrightarrow>
     snd (process_delete s name number) = s"
  by (auto simp: process_delete_def Let_def split: if_splits option.splits)

lemma process_disable_failure:
  "fst (process_disable s name number) = Inr (False, msg) \<Longrightarrow>
     snd (process_disable s name number) = s"
  by (auto simp: process_disable_def Let_def split: if_splits option.splits)

lemma process_changeplan_failure:
  "fst (process_changeplan s name number) = Inr (False, msg) \<Longrightarrow>
     snd (process_changeplan s name number) = s"
  by (auto simp: process_changeplan_def Let_def split: if_splits option.splits)

text \<open>
  C9. Every operation is atomic on failure: when a \<open>process_*\<close> call returns
  \<open>(False, msg)\<close>, the controller (account list with every balance and status,
  transaction log, the three session totals, login state) is exactly what it was
  before the call.
\<close>

theorem failure_is_atomic:
  "fst (process s r) = Inr (False, msg) \<Longrightarrow> snd (process s r) = s"
  by (cases r)
     (simp_all add: process_login_failure process_logout_failure process_withdrawal_failure
        process_transfer_failure process_paybill_failure process_deposit_failure
        process_create_failure process_delete_failure process_disable_failure
        process_changeplan_failure)

theorem failure_is_atomic_witness:
  "fst (process alice_session (Withdrawal ''00001'' 600 None))
     = Inr (False, ''Maximum withdrawal per session is $500.00.'')
   \<and> snd (process alice_session (Withdrawal ''00001'' 600 None)) = alice_session"
proof -
  have f: "fst (process alice_session (Withdrawal ''00001'' 600 None))
     = Inr (False, ''Maximum withdrawal per session is $500.00.'')"
    by (simp add: alice_session_eq process_withdrawal_def validate_withdrawal_def lookup_eval
          format_caps)
       (simp add: MAX_WITHDRAWAL_STANDARD_def)
  from failure_is_atomic [OF f] f show ?thesis by simp
qed

section \<open>The account number generated for a new account\<close>

lemma is_digit_digit_char: "d < 10 \<Longrightarrow> is_digit (digit_char d)"
  by (simp add: is_digit_def digit_char_def)

lemma digit_val_digit_char: "d < 10 \<Longrightarrow> digit_val (digit_char d) = d"
  by (simp add: digit_val_def digit_char_def)

lemma str_nat_digits: "\<forall>c \<in> set (str_nat n). is_digit c"
proof (induction n rule: str_nat.induct)
  case (1 n)
  show ?case
  proof (cases "n < 10")
    case True
    then show ?thesis by (simp add: str_nat_small is_digit_digit_char)
  next
    case False
    with 1 have "\<forall>c \<in> set (str_nat (n div 10)). is_digit c" by simp
    with False show ?thesis by (simp add: str_nat_large is_digit_digit_char)
  qed
qed

lemma str_nat_not_empty: "str_nat n \<noteq> []"
  by (subst str_nat.simps) simp

lemma digits_value_str_nat: "digits_value 0 (str_nat n) = n"
proof (induction n rule: str_nat.induct)
  case (1 n)
  show ?case
  proof (cases "n < 10")
    case True
    then show ?thesis by (simp add: str_nat_small digits_value_def digit_val_digit_char)
  next
    case False
    with 1 have "digits_value 0 (str_nat (n div 10)) = n div 10" by simp
    with False show ?thesis by (simp add: str_nat_large digits_value_def digit_val_digit_char)
  qed
qed

lemma digits_value_zeros: "digits_value 0 (replicate m CHR ''0'') = 0"
  by (induction m) (simp_all add: digits_value_def digit_val_def)

lemma digits_value_append:
  "digits_value acc (xs @ ys) = digits_value (digits_value acc xs) ys"
  by (simp add: digits_value_def)

lemma parse_digits_all_digits:
  "\<forall>c \<in> set cs. is_digit c \<Longrightarrow>
     parse_digits acc prev cs = (if prev \<or> cs \<noteq> [] then Some (digits_value acc cs) else None)"
  by (induction cs arbitrary: acc prev) (simp_all add: digits_value_def)

lemma is_digit_not_space: "is_digit c \<Longrightarrow> \<not> is_space c"
  by (simp add: is_digit_def is_space_def)

lemma strip_digits: "\<forall>c \<in> set cs. is_digit c \<Longrightarrow> strip cs = cs"
proof (cases "cs = []")
  case True
  then show ?thesis by (simp add: strip_def)
next
  case False
  assume d: "\<forall>c \<in> set cs. is_digit c"
  from False d have "\<not> is_space (hd cs)" by (simp add: is_digit_not_space)
  then have 1: "dropWhile is_space cs = cs" by (simp add: dropWhile_eq_self_iff)
  from False d have "\<not> is_space (last cs)" by (simp add: is_digit_not_space)
  with False have 2: "dropWhile is_space (rev cs) = rev cs"
    by (simp add: dropWhile_eq_self_iff hd_rev)
  show ?thesis by (simp add: strip_def 1 2)
qed

lemma py_int_digits:
  assumes "\<forall>c \<in> set cs. is_digit c" and "cs \<noteq> []"
  shows "py_int cs = Some (int (digits_value 0 cs))"
proof -
  from assms obtain c r where cs: "cs = c # r" by (cases cs) auto
  with assms have "is_digit c" by simp
  then have "c \<noteq> CHR ''-''" "c \<noteq> CHR ''+''" by (auto simp: is_digit_def)
  with assms cs show ?thesis
    by (simp add: py_int_def strip_digits parse_digits_all_digits [of cs 0 False, unfolded cs]
             del: parse_digits.simps)
qed

lemma zfill_str_int:
  assumes "0 < k"
  shows "\<exists>m. zfill 5 (str_int k) = replicate m CHR ''0'' @ str_nat (nat k)"
proof (cases "5 \<le> length (str_nat (nat k))")
  case True
  with assms have "zfill 5 (str_int k) = replicate 0 CHR ''0'' @ str_nat (nat k)"
    by (simp add: zfill_def str_int_def)
  then show ?thesis by blast
next
  case False
  obtain c r where cr: "str_nat (nat k) = c # r"
    using str_nat_not_empty [of "nat k"] by (cases "str_nat (nat k)") auto
  have "is_digit c" using str_nat_digits [of "nat k"] cr by simp
  then have "c \<noteq> CHR ''-''" "c \<noteq> CHR ''+''" by (auto simp: is_digit_def)
  with assms False cr
  have "zfill 5 (str_int k) = replicate (5 - length (str_nat (nat k))) CHR ''0'' @ str_nat (nat k)"
    by (simp add: zfill_def str_int_def)
  then show ?thesis by blast
qed

lemma py_int_generated:
  assumes "0 < k"
  shows "py_int (zfill 5 (str_int k)) = Some k"
proof -
  from zfill_str_int [OF assms] obtain m where
    z: "zfill 5 (str_int k) = replicate m CHR ''0'' @ str_nat (nat k)" by blast
  have zero: "is_digit CHR ''0''" by (simp add: is_digit_def)
  have d: "\<forall>c \<in> set (replicate m CHR ''0'' @ str_nat (nat k)). is_digit c"
    using str_nat_digits [of "nat k"] zero by auto
  have ne: "replicate m CHR ''0'' @ str_nat (nat k) \<noteq> []"
    by (simp add: str_nat_not_empty)
  have "py_int (replicate m CHR ''0'' @ str_nat (nat k))
          = Some (int (digits_value 0 (replicate m CHR ''0'' @ str_nat (nat k))))"
    by (rule py_int_digits [OF d ne])
  also have "digits_value 0 (replicate m CHR ''0'' @ str_nat (nat k)) = nat k"
    by (simp add: digits_value_append digits_value_zeros digits_value_str_nat)
  finally show ?thesis using assms by (simp add: z)
qed

lemma max_account_number_ge: "m \<le> max_account_number m accts"
proof (induction accts arbitrary: m)
  case Nil
  show ?case by simp
next
  case (Cons a accts)
  show ?case
  proof (cases "py_int (account_number a)")
    case None
    then show ?thesis using Cons [of m] by simp
  next
    case (Some v)
    then show ?thesis using Cons [of m] Cons [of v] by auto
  qed
qed

lemma max_account_number_bound:
  "a \<in> set accts \<Longrightarrow> py_int (account_number a) = Some v \<Longrightarrow> v \<le> max_account_number m accts"
proof (induction accts arbitrary: m)
  case Nil
  then show ?case by simp
next
  case (Cons b accts)
  show ?case
  proof (cases "a = b")
    case True
    with Cons.prems show ?thesis
      using max_account_number_ge [of v accts] max_account_number_ge [of m accts]
      by (auto split: if_splits)
  next
    case False
    with Cons.prems have "a \<in> set accts" by simp
    from Cons.IH [OF this Cons.prems(2)] show ?thesis
      by (auto split: option.splits)
  qed
qed

lemma generated_number_is_new:
  "find_account_by_number s (generate_account_number s) = None"
proof -
  let ?k = "max_account_number 0 (accounts s) + 1"
  have pos: "0 < ?k" using max_account_number_ge [of 0 "accounts s"] by simp
  have "account_number a \<noteq> zfill 5 (str_int ?k)" if a: "a \<in> set (accounts s)" for a
  proof
    assume eq: "account_number a = zfill 5 (str_int ?k)"
    then have "py_int (account_number a) = Some ?k" by (simp add: py_int_generated [OF pos])
    from max_account_number_bound [OF a this, of 0] show False by simp
  qed
  then show ?thesis
    by (simp add: find_account_by_number_def generate_account_number_def find_first_None)
qed


text \<open>
  C10. In \<open>process_create\<close> the error \<open>Account number already exists.\<close> cannot be
  returned: the generated number \<open>str(max_number + 1).zfill(5)\<close> is the number of no
  account in the list, so a logged-in admin's request fails exactly when the name is too
  long or the balance is out of range.
\<close>

theorem generated_number_never_exists:
  "find_account_by_number s (generate_account_number s) = None
   \<and> fst (process_create s name bal) \<noteq> Inr (False, ''Account number already exists.'')
   \<and> (is_logged_in s \<and> is_admin s \<longrightarrow>
         (\<exists>msg. fst (process_create s name bal) = Inr (False, msg))
           = (MAX_NAME_LENGTH < length name \<or> bal < 0 \<or> MAX_ACCOUNT_BALANCE < bal))"
  by (simp add: generated_number_is_new process_create_def validate_create_def Let_def)

theorem generated_number_never_exists_witness:
  "is_logged_in admin_session \<and> is_admin admin_session
   \<and> generate_account_number admin_session = ''00003''
   \<and> find_account_by_number admin_session ''00003'' = None
   \<and> fst (process_create admin_session ''Carol'' 50000)
       = Inr (True, ''Account 00003 created for Carol (available next session).'')
   \<and> fst (process_create admin_session ''Carol'' 100000)
       = Inr (False, ''Maximum account balance is $99999.99.'')"
proof -
  have p1: "py_int ''00001'' = Some 1"
    by (simp add: py_int_def strip_def is_space_def is_digit_def digit_val_def)
  have p2: "py_int ''00002'' = Some 2"
    by (simp add: py_int_def strip_def is_space_def is_digit_def digit_val_def)
  have g: "generate_account_number admin_session = ''00003''"
    by (simp add: generate_account_number_def admin_session_eq alice_def bob_def p1 p2
          str_int_def zfill_def str_nat_small digit_char_simps list_eval)
  from generated_number_never_exists [of admin_session "''Carol''" 50000] g
  show ?thesis
    by (simp add: admin_session_eq process_create_def validate_create_def MAX_NAME_LENGTH_def
          max_account_balance_value format_eval)
qed

section \<open>Session totals\<close>

lemma session_inv_init: "session_inv init"
  by (simp add: session_inv_def within_caps_def totals_zero_def init_def
        MAX_WITHDRAWAL_STANDARD_def MAX_TRANSFER_STANDARD_def MAX_PAYBILL_STANDARD_def)

lemma session_inv_load: "session_inv s \<Longrightarrow> session_inv (load_accounts s parsed)"
  by (simp add: session_inv_def within_caps_def totals_zero_def load_accounts_def)

lemma session_inv_login: "session_inv s \<Longrightarrow> session_inv (snd (process_login s mode user_name))"
  by (auto simp: session_inv_def within_caps_def totals_zero_def process_login_def
        MAX_WITHDRAWAL_STANDARD_def MAX_TRANSFER_STANDARD_def MAX_PAYBILL_STANDARD_def
      split: option.splits)

lemma session_inv_logout: "session_inv s \<Longrightarrow> session_inv (snd (process_logout s))"
  by (auto simp: session_inv_def within_caps_def totals_zero_def process_logout_def
        MAX_WITHDRAWAL_STANDARD_def MAX_TRANSFER_STANDARD_def MAX_PAYBILL_STANDARD_def)

lemma session_inv_withdrawal:
  "session_inv s \<Longrightarrow> session_inv (snd (process_withdrawal s number amt holder))"
  by (auto simp: session_inv_def within_caps_def totals_zero_def process_withdrawal_def Let_def
      split: option.splits dest!: validate_withdrawal_accepts)

lemma session_inv_transfer:
  "session_inv s \<Longrightarrow> session_inv (snd (process_transfer s n1 n2 amt holder))"
  by (auto simp: session_inv_def within_caps_def totals_zero_def process_transfer_def Let_def
      split: option.splits dest!: validate_transfer_accepts)

lemma session_inv_paybill:
  "session_inv s \<Longrightarrow> session_inv (snd (process_paybill s number amt company holder))"
  by (auto simp: session_inv_def within_caps_def totals_zero_def process_paybill_def Let_def
      split: option.splits dest!: validate_paybill_accepts)

lemma session_inv_deposit:
  "session_inv s \<Longrightarrow> session_inv (snd (process_deposit s number amt holder))"
  by (auto simp: session_inv_def within_caps_def totals_zero_def process_deposit_def Let_def
      split: option.splits)

lemma session_inv_create:
  "session_inv s \<Longrightarrow> session_inv (snd (process_create s name bal))"
  by (auto simp: session_inv_def within_caps_def totals_zero_def process_create_def Let_def
      split: option.splits)

lemma session_inv_delete:
  "session_inv s \<Longrightarrow> session_inv (snd (process_delete s name number))"
  by (auto simp: session_inv_def within_caps_def totals_zero_def process_delete_def Let_def
      split: option.splits)

lemma session_inv_disable:
  "session_inv s \<Longrightarrow> session_inv (snd (process_disable s name number))"
  by (auto simp: session_inv_def within_caps_def totals_zero_def process_disable_def Let_def
      split: option.splits)

lemma session_inv_changeplan:
  "session_inv s \<Longrightarrow> session_inv (snd (process_changeplan s name number))"
  by (auto simp: session_inv_def within_caps_def totals_zero_def process_changeplan_def Let_def
      split: option.splits)

lemma session_inv_process: "session_inv s \<Longrightarrow> session_inv (snd (process s r))"
  by (cases r)
     (simp_all add: session_inv_login session_inv_logout session_inv_withdrawal
        session_inv_transfer session_inv_paybill session_inv_deposit session_inv_create
        session_inv_delete session_inv_disable session_inv_changeplan)

lemma run_snoc: "run (evs @ [e]) = apply_event (run evs) e"
  by (simp add: run_def)

lemma session_inv_run: "session_inv (run evs)"
proof (induction evs rule: rev_induct)
  case Nil
  show ?case by (simp add: run_def session_inv_init)
next
  case (snoc e evs)
  then show ?case
    by (cases e) (simp_all add: run_snoc session_inv_load session_inv_process)
qed

lemma admin_reply_withdrawal:
  "is_admin s \<Longrightarrow>
     fst (process_withdrawal (s\<lparr>session_withdrawals := w\<rparr>) number amt holder)
       = fst (process_withdrawal s number amt holder)"
  by (simp add: process_withdrawal_def Let_def acting_owner_def find_user_account_def
        account_at_def validate_withdrawal_def split: option.splits)

lemma admin_reply_transfer:
  "is_admin s \<Longrightarrow>
     fst (process_transfer (s\<lparr>session_transfers := w\<rparr>) n1 n2 amt holder)
       = fst (process_transfer s n1 n2 amt holder)"
  by (simp add: process_transfer_def Let_def acting_owner_def find_user_account_def
        find_account_by_number_def account_at_def validate_transfer_def split: option.splits)

lemma admin_reply_paybill:
  "is_admin s \<Longrightarrow>
     fst (process_paybill (s\<lparr>session_paybills := w\<rparr>) number amt company holder)
       = fst (process_paybill s number amt company holder)"
  by (simp add: process_paybill_def Let_def acting_owner_def find_user_account_def
        account_at_def validate_paybill_def split: option.splits)

text \<open>
  C1. In every run of the controller, outside an admin session the running totals of
  withdrawals, transfers and paybills are at most 500.00, 1000.00 and 2000.00. In an
  admin session no cap is checked: the reply to a withdrawal, transfer or paybill does
  not depend on the running total of its category.
\<close>

theorem session_totals_within_caps:
  "(\<not> is_admin (run evs) \<longrightarrow>
      session_withdrawals (run evs) \<le> 500
      \<and> session_transfers (run evs) \<le> 1000
      \<and> session_paybills (run evs) \<le> 2000)
   \<and> (is_admin s \<longrightarrow>
        fst (process_withdrawal (s\<lparr>session_withdrawals := w\<rparr>) number amt holder)
          = fst (process_withdrawal s number amt holder)
        \<and> fst (process_transfer (s\<lparr>session_transfers := w\<rparr>) number target amt holder)
          = fst (process_transfer s number target amt holder)
        \<and> fst (process_paybill (s\<lparr>session_paybills := w\<rparr>) number amt company holder)
          = fst (process_paybill s number amt company holder))"
  using session_inv_run [of evs]
  by (simp add: session_inv_def within_caps_def MAX_WITHDRAWAL_STANDARD_def
        MAX_TRANSFER_STANDARD_def MAX_PAYBILL_STANDARD_def admin_reply_withdrawal
        admin_reply_transfer admin_reply_paybill)

lemma alice_withdraws_500:
  "process_withdrawal alice_session ''00001'' 500 None =
     (Inr (True, ''Withdrawal of $500.00 successful. New balance: $500.00''),
      \<lparr>accounts = [alice\<lparr>balance := 500\<rparr>, bob],
       transactions = [create_withdrawal ''Alice'' ''00001'' 500],
       is_logged_in = True, is_admin = False, current_user = Some ''Alice'',
       session_withdrawals = 500, session_transfers = 0, session_paybills = 0\<rparr>)"
  by (simp add: alice_session_eq process_withdrawal_def validate_withdrawal_def lookup_eval
        withdraw_def MAX_WITHDRAWAL_STANDARD_def format_eval)

lemma alice_withdraws_again:
  "process_withdrawal (snd (process_withdrawal alice_session ''00001'' 500 None)) ''00001'' 1 None =
     (Inr (False, ''Maximum withdrawal per session is $500.00.''),
      snd (process_withdrawal alice_session ''00001'' 500 None))"
  by (simp add: alice_withdraws_500)
     (simp add: process_withdrawal_def validate_withdrawal_def lookup_eval
        format_caps, simp add: MAX_WITHDRAWAL_STANDARD_def)

lemma alice_run:
  "run [Load [alice, bob], Call (Login ''standard'' (Some ''Alice'')),
        Call (Withdrawal ''00001'' 500 None), Call (Withdrawal ''00001'' 1 None)]
     = snd (process_withdrawal alice_session ''00001'' 500 None)"
proof -
  have "run [Load [alice, bob], Call (Login ''standard'' (Some ''Alice'')),
             Call (Withdrawal ''00001'' 500 None), Call (Withdrawal ''00001'' 1 None)]
          = snd (process_withdrawal (snd (process_withdrawal alice_session ''00001'' 500 None))
                   ''00001'' 1 None)"
    by (simp add: run_def alice_session_def)
  then show ?thesis by (simp add: alice_withdraws_again)
qed

theorem session_totals_within_caps_witness:
  "\<not> is_admin (run [Load [alice, bob], Call (Login ''standard'' (Some ''Alice'')),
                     Call (Withdrawal ''00001'' 500 None), Call (Withdrawal ''00001'' 1 None)])
   \<and> session_withdrawals (run [Load [alice, bob], Call (Login ''standard'' (Some ''Alice'')),
                     Call (Withdrawal ''00001'' 500 None), Call (Withdrawal ''00001'' 1 None)]) = 500
   \<and> is_admin admin_session
   \<and> fst (process_withdrawal (admin_session\<lparr>session_withdrawals := 5000\<rparr>) ''00001'' 600 (Some ''Alice''))
       = Inr (True, ''Withdrawal of $600.00 successful. New balance: $400.00'')"
proof -
  have a: "fst (process_withdrawal admin_session ''00001'' 600 (Some ''Alice''))
       = Inr (True, ''Withdrawal of $600.00 successful. New balance: $400.00'')"
    by (simp add: admin_session_eq process_withdrawal_def validate_withdrawal_def lookup_eval
          withdraw_def format_eval)
  have b: "is_admin admin_session" by (simp add: admin_session_eq)
  from session_totals_within_caps
         [of "[Load [alice, bob], Call (Login ''standard'' (Some ''Alice'')),
               Call (Withdrawal ''00001'' 500 None), Call (Withdrawal ''00001'' 1 None)]"
             admin_session 5000 "''00001''" 600 "Some ''Alice''"]
       a b
  show ?thesis by (simp add: alice_run alice_withdraws_500)
qed

text \<open>
  C7. After every successful login and after every successful logout, in any run of
  the controller, the three session totals are zero. Logout assigns the zeros; a login
  succeeds only while nobody is logged in, and then the totals are the zeros left by
  the constructor or by the last logout.
\<close>

theorem totals_zero_after_login_and_logout:
  "(fst (process_login (run evs) mode user_name) = Inr (True, msg) \<longrightarrow>
      session_withdrawals (snd (process_login (run evs) mode user_name)) = 0
      \<and> session_transfers (snd (process_login (run evs) mode user_name)) = 0
      \<and> session_paybills (snd (process_login (run evs) mode user_name)) = 0)
   \<and> (fst (process_logout s) = Inr (True, msg') \<longrightarrow>
      session_withdrawals (snd (process_logout s)) = 0
      \<and> session_transfers (snd (process_logout s)) = 0
      \<and> session_paybills (snd (process_logout s)) = 0)"
  using session_inv_run [of evs]
  by (auto simp: session_inv_def totals_zero_def process_login_def process_logout_def
      split: option.splits if_splits)

theorem totals_zero_after_login_and_logout_witness:
  "fst (process_login (run [Load [alice, bob], Call (Login ''standard'' (Some ''Alice'')),
                            Call (Withdrawal ''00001'' 500 None), Call Logout])
          ''admin'' None) = Inr (True, ''Admin session started.'')
   \<and> session_withdrawals
        (snd (process_login (run [Load [alice, bob], Call (Login ''standard'' (Some ''Alice'')),
                            Call (Withdrawal ''00001'' 500 None), Call Logout])
          ''admin'' None)) = 0
   \<and> session_withdrawals (snd (process_withdrawal alice_session ''00001'' 500 None)) = 500
   \<and> fst (process_logout (snd (process_withdrawal alice_session ''00001'' 500 None)))
       = Inr (True, ''Session ended. Transaction file ready for download.'')
   \<and> session_withdrawals
        (snd (process_logout (snd (process_withdrawal alice_session ''00001'' 500 None)))) = 0"
proof -
  have r: "run [Load [alice, bob], Call (Login ''standard'' (Some ''Alice'')),
                Call (Withdrawal ''00001'' 500 None), Call Logout]
             = snd (process_logout (snd (process_withdrawal alice_session ''00001'' 500 None)))"
    by (simp add: run_def alice_session_def)
  have l: "fst (process_logout (snd (process_withdrawal alice_session ''00001'' 500 None)))
       = Inr (True, ''Session ended. Transaction file ready for download.'')"
    by (simp add: alice_withdraws_500 process_logout_def)
  have i: "fst (process_login (run [Load [alice, bob], Call (Login ''standard'' (Some ''Alice'')),
                            Call (Withdrawal ''00001'' 500 None), Call Logout])
          ''admin'' None) = Inr (True, ''Admin session started.'')"
    by (simp add: r alice_withdraws_500 process_logout_def process_login_def)
  from totals_zero_after_login_and_logout
         [of "[Load [alice, bob], Call (Login ''standard'' (Some ''Alice'')),
               Call (Withdrawal ''00001'' 500 None), Call Logout]"
             "''admin''" None "''Admin session started.''"
             "snd (process_withdrawal alice_session ''00001'' 500 None)"
             "''Session ended. Transaction file ready for download.''"]
       i l
  show ?thesis by (simp add: alice_withdraws_500)
qed


section \<open>What an accepted operation does\<close>

lemma find_user_account_Some:
  "find_user_account s owner number = Some i \<Longrightarrow>
     i < length (accounts s) \<and> Some (holder_name (accounts s ! i)) = owner
       \<and> account_number (accounts s ! i) = number"
  by (auto simp: find_user_account_def dest: find_first_Some)

lemma find_account_by_number_Some:
  "find_account_by_number s number = Some j \<Longrightarrow>
     j < length (accounts s) \<and> account_number (accounts s ! j) = number"
  by (auto simp: find_account_by_number_def dest: find_first_Some)

lemma find_first_update:
  "find_first P xs = Some i \<Longrightarrow> P y \<Longrightarrow> find_first P (xs[i := y]) = Some i"
proof (induction xs arbitrary: i)
  case Nil
  then show ?case by simp
next
  case (Cons x xs)
  then show ?case by (cases i) (auto split: if_splits)
qed

lemma process_withdrawal_success:
  assumes "fst (process_withdrawal s number amt holder) = Inr (True, msg)"
  shows "\<exists>i owner. find_user_account s (acting_owner s holder) number = Some i
           \<and> acting_owner s holder = Some owner
           \<and> i < length (accounts s)
           \<and> \<not> balance (accounts s ! i) < amt \<and> 0 < amt
           \<and> snd (process_withdrawal s number amt holder)
               = s\<lparr>accounts := (accounts s)[i := (accounts s ! i)\<lparr>balance := float_sub (balance (accounts s ! i)) amt\<rparr>],
                   session_withdrawals := float_add (session_withdrawals s) amt,
                   transactions := transactions s @ [create_withdrawal owner number amt]\<rparr>"
proof -
  from assms have li: "is_logged_in s"
    by (auto simp: process_withdrawal_def split: if_splits)
  from assms li obtain i where i: "find_user_account s (acting_owner s holder) number = Some i"
    by (cases "find_user_account s (acting_owner s holder) number")
       (auto simp: process_withdrawal_def Let_def split: option.splits)
  from assms li obtain owner where o: "acting_owner s holder = Some owner"
    by (cases "acting_owner s holder")
       (auto simp: process_withdrawal_def Let_def split: option.splits)
  from assms li i o
  have v: "validate_withdrawal (Some (accounts s ! i)) amt (is_admin s) (session_withdrawals s) = None"
    by (auto simp: process_withdrawal_def Let_def account_at_def split: option.splits)
  from validate_withdrawal_accepts [OF v] have b: "\<not> balance (accounts s ! i) < amt" "0 < amt"
    by simp_all
  from li i o v b
  have "snd (process_withdrawal s number amt holder)
          = s\<lparr>accounts := (accounts s)[i := (accounts s ! i)\<lparr>balance := float_sub (balance (accounts s ! i)) amt\<rparr>],
              session_withdrawals := float_add (session_withdrawals s) amt,
              transactions := transactions s @ [create_withdrawal owner number amt]\<rparr>"
    by (simp add: process_withdrawal_def Let_def account_at_def withdraw_def)
  with i o b find_user_account_Some [OF i] show ?thesis by simp
qed

lemma process_paybill_success:
  assumes "fst (process_paybill s number amt company holder) = Inr (True, msg)"
  shows "\<exists>i owner. find_user_account s (acting_owner s holder) number = Some i
           \<and> acting_owner s holder = Some owner
           \<and> i < length (accounts s)
           \<and> \<not> balance (accounts s ! i) < amt
           \<and> snd (process_paybill s number amt company holder)
               = s\<lparr>accounts := (accounts s)[i := (accounts s ! i)\<lparr>balance := float_sub (balance (accounts s ! i)) amt\<rparr>],
                   session_paybills := float_add (session_paybills s) amt,
                   transactions := transactions s @ [create_paybill owner number amt company]\<rparr>"
proof -
  from assms have li: "is_logged_in s"
    by (auto simp: process_paybill_def split: if_splits)
  from assms li obtain i where i: "find_user_account s (acting_owner s holder) number = Some i"
    by (cases "find_user_account s (acting_owner s holder) number")
       (auto simp: process_paybill_def Let_def split: option.splits)
  from assms li obtain owner where o: "acting_owner s holder = Some owner"
    by (cases "acting_owner s holder")
       (auto simp: process_paybill_def Let_def split: option.splits)
  from assms li i o
  have v: "validate_paybill (Some (accounts s ! i)) amt company (is_admin s) (session_paybills s) = None"
    by (auto simp: process_paybill_def Let_def account_at_def split: option.splits)
  from validate_paybill_accepts [OF v] have b: "\<not> balance (accounts s ! i) < amt" by simp
  from li i o v b
  have "snd (process_paybill s number amt company holder)
          = s\<lparr>accounts := (accounts s)[i := (accounts s ! i)\<lparr>balance := float_sub (balance (accounts s ! i)) amt\<rparr>],
              session_paybills := float_add (session_paybills s) amt,
              transactions := transactions s @ [create_paybill owner number amt company]\<rparr>"
    by (simp add: process_paybill_def Let_def account_at_def withdraw_def)
  with i o b find_user_account_Some [OF i] show ?thesis by simp
qed

lemma process_transfer_success:
  assumes "fst (process_transfer s number target amt holder) = Inr (True, msg)"
  shows "\<exists>i j owner. find_user_account s (acting_owner s holder) number = Some i
           \<and> find_account_by_number s target = Some j
           \<and> acting_owner s holder = Some owner
           \<and> i < length (accounts s) \<and> j < length (accounts s)
           \<and> \<not> balance (accounts s ! i) < amt
           \<and> snd (process_transfer s number target amt holder)
               = s\<lparr>accounts :=
                     ((accounts s)[i := (accounts s ! i)\<lparr>balance := float_sub (balance (accounts s ! i)) amt\<rparr>])
                       [j := deposit (((accounts s)[i := (accounts s ! i)\<lparr>balance := float_sub (balance (accounts s ! i)) amt\<rparr>]) ! j) amt],
                   session_transfers := float_add (session_transfers s) amt,
                   transactions := transactions s @ [create_transfer owner number target amt]\<rparr>"
proof -
  from assms have li: "is_logged_in s"
    by (auto simp: process_transfer_def split: if_splits)
  from assms li obtain i where i: "find_user_account s (acting_owner s holder) number = Some i"
    by (cases "find_user_account s (acting_owner s holder) number")
       (auto simp: process_transfer_def Let_def split: option.splits)
  from assms li obtain j where j: "find_account_by_number s target = Some j"
    by (cases "find_account_by_number s target")
       (auto simp: process_transfer_def Let_def split: option.splits)
  from assms li obtain owner where o: "acting_owner s holder = Some owner"
    by (cases "acting_owner s holder")
       (auto simp: process_transfer_def Let_def split: option.splits)
  from assms li i j o
  have v: "validate_transfer (Some (accounts s ! i)) (Some (accounts s ! j)) amt (is_admin s)
             (session_transfers s) = None"
    by (auto simp: process_transfer_def Let_def account_at_def split: option.splits)
  from validate_transfer_accepts [OF v] have b: "\<not> balance (accounts s ! i) < amt" by simp
  from li i j o v b
  have "snd (process_transfer s number target amt holder)
          = s\<lparr>accounts :=
                 ((accounts s)[i := (accounts s ! i)\<lparr>balance := float_sub (balance (accounts s ! i)) amt\<rparr>])
                   [j := deposit (((accounts s)[i := (accounts s ! i)\<lparr>balance := float_sub (balance (accounts s ! i)) amt\<rparr>]) ! j) amt],
              session_transfers := float_add (session_transfers s) amt,
              transactions := transactions s @ [create_transfer owner number target amt]\<rparr>"
    by (simp add: process_transfer_def Let_def account_at_def withdraw_def)
  with i j o b find_user_account_Some [OF i] find_account_by_number_Some [OF j]
  show ?thesis by simp
qed

lemma alice_transfers_300:
  "process_transfer alice_session ''00001'' ''00002'' 300 None =
     (Inr (True, ''Transfer of $300.00 successful.''),
      \<lparr>accounts = [alice\<lparr>balance := 700\<rparr>, bob\<lparr>balance := 350\<rparr>],
       transactions = [create_transfer ''Alice'' ''00001'' ''00002'' 300],
       is_logged_in = True, is_admin = False, current_user = Some ''Alice'',
       session_withdrawals = 0, session_transfers = 300, session_paybills = 0\<rparr>)"
  by (simp add: alice_session_eq process_transfer_def validate_transfer_def lookup_eval
        withdraw_def deposit_def MAX_TRANSFER_STANDARD_def format_eval)

lemma alice_pays_100:
  "process_paybill alice_session ''00001'' 100 ''EC'' None =
     (Inr (True, ''Bill payment of $100.00 to EC successful.''),
      \<lparr>accounts = [alice\<lparr>balance := 900\<rparr>, bob],
       transactions = [create_paybill ''Alice'' ''00001'' 100 ''EC''],
       is_logged_in = True, is_admin = False, current_user = Some ''Alice'',
       session_withdrawals = 0, session_transfers = 0, session_paybills = 100\<rparr>)"
  by (simp add: alice_session_eq process_paybill_def validate_paybill_def lookup_eval
        withdraw_def VALID_COMPANIES_def MAX_PAYBILL_STANDARD_def format_eval)

lemma dora_withdraws_1:
  "process_withdrawal dora_session ''00009'' 1 None =
     (Inr (True, ''Withdrawal of $1.00 successful. New balance: $10000000000000000.00''),
      \<lparr>accounts = [dora],
       transactions = [create_withdrawal ''Dora'' ''00009'' 1],
       is_logged_in = True, is_admin = False, current_user = Some ''Dora'',
       session_withdrawals = 1, session_transfers = 0, session_paybills = 0\<rparr>)"
  by (simp add: dora_session_eq process_withdrawal_def validate_withdrawal_def
        acting_owner_def find_user_account_def account_at_def is_disabled_def dora_def
        withdraw_def float_sub_absorbs float_add_def round_double_1
        MAX_WITHDRAWAL_STANDARD_def format_eval)

text \<open>
  C2, as stated, fails in its second half: the balance after a successful withdrawal
  is the float difference, which need not be the balance before minus the amount. An
  account holding \<open>1e16\<close> accepts a withdrawal of \<open>1.0\<close> and still holds
  \<open>1e16\<close> afterwards.
\<close>

theorem withdrawal_not_exact_counterexample:
  "fst (process_withdrawal dora_session ''00009'' 1 None)
     = Inr (True, ''Withdrawal of $1.00 successful. New balance: $10000000000000000.00'')
   \<and> find_user_account dora_session (acting_owner dora_session None) ''00009'' = Some 0
   \<and> balance (accounts dora_session ! 0) = 10000000000000000
   \<and> balance (accounts (snd (process_withdrawal dora_session ''00009'' 1 None)) ! 0)
       = 10000000000000000
   \<and> balance (accounts (snd (process_withdrawal dora_session ''00009'' 1 None)) ! 0)
       \<noteq> balance (accounts dora_session ! 0) - 1"
  by (simp add: dora_withdraws_1)
     (simp add: dora_session_eq acting_owner_def find_user_account_def dora_def)

text \<open>
  C2, amended. A withdrawal, transfer or paybill that succeeds has resolved its
  (source) account, and the balance of that account was not less than the amount. After
  a successful withdrawal the same account holds the float difference of its earlier
  balance and the amount, that is the float nearest to the exact difference (which lies
  between zero and the balance, so within the range of floats). It is the exact
  difference when balance and amount are whole numbers and the difference is below
  \<open>2 ^ 53\<close> in magnitude; it is the unchanged balance for \<open>1e16\<close> and \<open>1.0\<close>.
\<close>

theorem balance_covers_amount:
  "(fst (process_withdrawal s number amt holder) = Inr (True, msg) \<longrightarrow>
      (\<exists>i. find_user_account s (acting_owner s holder) number = Some i
         \<and> \<not> balance (accounts s ! i) < amt
         \<and> find_user_account (snd (process_withdrawal s number amt holder))
              (acting_owner s holder) number = Some i
         \<and> balance (accounts (snd (process_withdrawal s number amt holder)) ! i)
             = float_sub (balance (accounts s ! i)) amt
         \<and> float_sub (balance (accounts s ! i)) amt
             = round_double (balance (accounts s ! i) - amt)
         \<and> (balance (accounts s ! i) \<le> max_float \<longrightarrow>
               0 \<le> balance (accounts s ! i) - amt
               \<and> balance (accounts s ! i) - amt \<le> max_float)))
   \<and> (fst (process_transfer s number target amt holder) = Inr (True, msg) \<longrightarrow>
      (\<exists>i. find_user_account s (acting_owner s holder) number = Some i
         \<and> \<not> balance (accounts s ! i) < amt))
   \<and> (fst (process_paybill s number amt company holder) = Inr (True, msg) \<longrightarrow>
      (\<exists>i. find_user_account s (acting_owner s holder) number = Some i
         \<and> \<not> balance (accounts s ! i) < amt))
   \<and> (\<bar>b - a\<bar> < 2 ^ 53 \<longrightarrow> float_sub (of_int b) (of_int a) = of_int b - of_int a)
   \<and> float_sub 10000000000000000 1 = 10000000000000000"
proof (intro conjI impI)
  assume a: "fst (process_withdrawal s number amt holder) = Inr (True, msg)"
  from process_withdrawal_success [OF a] obtain i owner where
    i: "find_user_account s (acting_owner s holder) number = Some i" and
    o: "acting_owner s holder = Some owner" and
    l: "i < length (accounts s)" and
    b: "\<not> balance (accounts s ! i) < amt" and
    pos: "0 < amt" and
    s': "snd (process_withdrawal s number amt holder)
           = s\<lparr>accounts := (accounts s)[i := (accounts s ! i)\<lparr>balance := float_sub (balance (accounts s ! i)) amt\<rparr>],
               session_withdrawals := float_add (session_withdrawals s) amt,
               transactions := transactions s @ [create_withdrawal owner number amt]\<rparr>"
    by blast
  from find_user_account_Some [OF i]
  have same: "Some (holder_name (accounts s ! i)) = acting_owner s holder"
    "account_number (accounts s ! i) = number" by simp_all
  from i have "find_first (\<lambda>a. Some (holder_name a) = acting_owner s holder \<and> account_number a = number)
                 ((accounts s)[i := (accounts s ! i)\<lparr>balance := float_sub (balance (accounts s ! i)) amt\<rparr>]) = Some i"
    unfolding find_user_account_def by (rule find_first_update) (simp add: same)
  then have f: "find_user_account (snd (process_withdrawal s number amt holder))
                  (acting_owner s holder) number = Some i"
    by (simp add: s' find_user_account_def)
  from l have "balance (accounts (snd (process_withdrawal s number amt holder)) ! i)
                 = float_sub (balance (accounts s ! i)) amt"
    by (simp add: s')
  moreover note i b f
  moreover have "float_sub (balance (accounts s ! i)) amt
                   = round_double (balance (accounts s ! i) - amt)"
    by (simp add: float_sub_def)
  moreover have "balance (accounts s ! i) \<le> max_float \<longrightarrow>
                   0 \<le> balance (accounts s ! i) - amt
                   \<and> balance (accounts s ! i) - amt \<le> max_float"
    using b pos by simp
  ultimately
  show "\<exists>i. find_user_account s (acting_owner s holder) number = Some i
         \<and> \<not> balance (accounts s ! i) < amt
         \<and> find_user_account (snd (process_withdrawal s number amt holder))
              (acting_owner s holder) number = Some i
         \<and> balance (accounts (snd (process_withdrawal s number amt holder)) ! i)
             = float_sub (balance (accounts s ! i)) amt
         \<and> float_sub (balance (accounts s ! i)) amt
             = round_double (balance (accounts s ! i) - amt)
         \<and> (balance (accounts s ! i) \<le> max_float \<longrightarrow>
               0 \<le> balance (accounts s ! i) - amt
               \<and> balance (accounts s ! i) - amt \<le> max_float)"
    by blast
next
  assume "fst (process_transfer s number target amt holder) = Inr (True, msg)"
  from process_transfer_success [OF this]
  show "\<exists>i. find_user_account s (acting_owner s holder) number = Some i
          \<and> \<not> balance (accounts s ! i) < amt"
    by blast
next
  assume "fst (process_paybill s number amt company holder) = Inr (True, msg)"
  from process_paybill_success [OF this]
  show "\<exists>i. find_user_account s (acting_owner s holder) number = Some i
          \<and> \<not> balance (accounts s ! i) < amt"
    by blast
next
  assume "\<bar>b - a\<bar> < 2 ^ 53"
  then show "float_sub (of_int b) (of_int a) = of_int b - of_int a"
    by (rule float_sub_int)
next
  show "float_sub 10000000000000000 1 = (10000000000000000 :: real)"
    by (rule float_sub_absorbs)
qed

theorem balance_covers_amount_witness:
  "fst (process_withdrawal alice_session ''00001'' 500 None)
     = Inr (True, ''Withdrawal of $500.00 successful. New balance: $500.00'')
   \<and> fst (process_transfer alice_session ''00001'' ''00002'' 300 None)
     = Inr (True, ''Transfer of $300.00 successful.'')
   \<and> fst (process_paybill alice_session ''00001'' 100 ''EC'' None)
     = Inr (True, ''Bill payment of $100.00 to EC successful.'')
   \<and> find_user_account alice_session (acting_owner alice_session None) ''00001'' = Some 0
   \<and> balance (accounts alice_session ! 0) = 1000
   \<and> balance (accounts (snd (process_withdrawal alice_session ''00001'' 500 None)) ! 0) = 500
   \<and> \<bar>1000 - 500 :: int\<bar> < 2 ^ 53
   \<and> float_sub 1000 500 = 500
   \<and> balance (accounts alice_session ! 0) \<le> max_float"
proof -
  have f: "find_user_account alice_session (acting_owner alice_session None) ''00001'' = Some 0"
    by (simp add: alice_session_eq lookup_eval)
  have w: "fst (process_withdrawal alice_session ''00001'' 500 None)
     = Inr (True, ''Withdrawal of $500.00 successful. New balance: $500.00'')"
    by (simp add: alice_withdraws_500)
  have t: "fst (process_transfer alice_session ''00001'' ''00002'' 300 None)
     = Inr (True, ''Transfer of $300.00 successful.'')"
    by (simp add: alice_transfers_300)
  have p: "fst (process_paybill alice_session ''00001'' 100 ''EC'' None)
     = Inr (True, ''Bill payment of $100.00 to EC successful.'')"
    by (simp add: alice_pays_100)
  have b: "balance (accounts alice_session ! 0) = 1000"
    by (simp add: alice_session_eq alice_def)
  have r: "balance (accounts alice_session ! 0) \<le> max_float"
    by (simp add: b max_float_def)
  note T = balance_covers_amount [of alice_session "''00001''" 500 None
         "''Withdrawal of $500.00 successful. New balance: $500.00''" "''00002''" "''EC''" 1000 500]
  from T [THEN conjunct2, THEN conjunct2, THEN conjunct2, THEN conjunct1]
  have e: "float_sub 1000 500 = 500" by simp
  from T [THEN conjunct1] w f b e
  have "balance (accounts (snd (process_withdrawal alice_session ''00001'' 500 None)) ! 0) = 500"
    by simp
  with w t p f b e r show ?thesis by simp
qed

text \<open>
  C3. Deposit and create never touch the account list (no balance changes, no account
  is added or removed). When they succeed they append exactly one Transaction to the log
  and change nothing else; when they do not, nothing changes at all.
\<close>

theorem deposit_and_create_only_record:
  "accounts (snd (process_deposit s number amt holder)) = accounts s
   \<and> accounts (snd (process_create s name bal)) = accounts s
   \<and> (fst (process_deposit s number amt holder) = Inr (True, msg) \<longrightarrow>
        (\<exists>owner. acting_owner s holder = Some owner
           \<and> snd (process_deposit s number amt holder)
               = s\<lparr>transactions := transactions s @ [create_deposit owner number amt]\<rparr>))
   \<and> (fst (process_create s name bal) = Inr (True, msg) \<longrightarrow>
        snd (process_create s name bal)
          = s\<lparr>transactions := transactions s
                 @ [create_account name (generate_account_number s) bal]\<rparr>)
   \<and> ((\<forall>m. fst (process_deposit s number amt holder) \<noteq> Inr (True, m)) \<longrightarrow>
        snd (process_deposit s number amt holder) = s)
   \<and> ((\<forall>m. fst (process_create s name bal) \<noteq> Inr (True, m)) \<longrightarrow>
        snd (process_create s name bal) = s)"
  by (auto simp: process_deposit_def process_create_def Let_def split: option.splits)

lemma alice_deposits_100:
  "process_deposit alice_session ''00001'' 100 None =
     (Inr (True, ''Deposit of $100.00 accepted (available next session).''),
      alice_session\<lparr>transactions := [create_deposit ''Alice'' ''00001'' 100]\<rparr>)"
  by (simp add: alice_session_eq process_deposit_def validate_deposit_def lookup_eval format_eval)

theorem deposit_and_create_only_record_witness:
  "fst (process_deposit alice_session ''00001'' 100 None)
     = Inr (True, ''Deposit of $100.00 accepted (available next session).'')
   \<and> snd (process_deposit alice_session ''00001'' 100 None)
     = alice_session\<lparr>transactions := transactions alice_session @ [create_deposit ''Alice'' ''00001'' 100]\<rparr>
   \<and> fst (process_create admin_session ''Carol'' 50000)
     = Inr (True, ''Account 00003 created for Carol (available next session).'')
   \<and> snd (process_create admin_session ''Carol'' 50000)
     = admin_session\<lparr>transactions := transactions admin_session
                        @ [create_account ''Carol'' (generate_account_number admin_session) 50000]\<rparr>
   \<and> (\<forall>m. fst (process_deposit alice_session ''00001'' 0 None) \<noteq> Inr (True, m))
   \<and> snd (process_deposit alice_session ''00001'' 0 None) = alice_session
   \<and> (\<forall>m. fst (process_create alice_session ''Carol'' 50000) \<noteq> Inr (True, m))
   \<and> snd (process_create alice_session ''Carol'' 50000) = alice_session"
proof -
  have d: "fst (process_deposit alice_session ''00001'' 100 None)
     = Inr (True, ''Deposit of $100.00 accepted (available next session).'')"
    by (simp add: alice_deposits_100)
  have o: "acting_owner alice_session None = Some ''Alice''"
    by (simp add: alice_session_eq acting_owner_def)
  have p1: "py_int ''00001'' = Some 1"
    by (simp add: py_int_def strip_def is_space_def is_digit_def digit_val_def)
  have p2: "py_int ''00002'' = Some 2"
    by (simp add: py_int_def strip_def is_space_def is_digit_def digit_val_def)
  have g: "generate_account_number admin_session = ''00003''"
    by (simp add: generate_account_number_def admin_session_eq alice_def bob_def p1 p2
          str_int_def zfill_def str_nat_small digit_char_simps list_eval)
  have c: "fst (process_create admin_session ''Carol'' 50000)
     = Inr (True, ''Account 00003 created for Carol (available next session).'')"
  proof -
    have fresh: "find_account_by_number admin_session ''00003'' = None"
      using generated_number_is_new [of admin_session] by (simp add: g)
    have adm: "is_logged_in admin_session" "is_admin admin_session"
      by (simp_all add: admin_session_eq)
    show ?thesis
      by (simp add: process_create_def Let_def g fresh adm validate_create_def
            MAX_NAME_LENGTH_def max_account_balance_value)
  qed
  have d0: "\<forall>m. fst (process_deposit alice_session ''00001'' 0 None) \<noteq> Inr (True, m)"
    by (simp add: alice_session_eq process_deposit_def validate_deposit_def lookup_eval)
  have c0: "\<forall>m. fst (process_create alice_session ''Carol'' 50000) \<noteq> Inr (True, m)"
    by (simp add: alice_session_eq process_create_def)
  from deposit_and_create_only_record
         [of alice_session "''00001''" 100 None "''Carol''" 50000
             "''Deposit of $100.00 accepted (available next session).''"]
       d o
  have 1: "snd (process_deposit alice_session ''00001'' 100 None)
     = alice_session\<lparr>transactions := transactions alice_session @ [create_deposit ''Alice'' ''00001'' 100]\<rparr>"
    by simp
  from deposit_and_create_only_record
         [of admin_session "''00001''" 100 None "''Carol''" 50000
             "''Account 00003 created for Carol (available next session).''"]
       c
  have 2: "snd (process_create admin_session ''Carol'' 50000)
     = admin_session\<lparr>transactions := transactions admin_session
                        @ [create_account ''Carol'' (generate_account_number admin_session) 50000]\<rparr>"
    by simp
  from deposit_and_create_only_record
         [of alice_session "''00001''" 0 None "''Carol''" 50000] d0 c0
  have 3: "snd (process_deposit alice_session ''00001'' 0 None) = alice_session"
    "snd (process_create alice_session ''Carol'' 50000) = alice_session"
    by simp_all
  from d c d0 c0 1 2 3 show ?thesis by simp
qed


section \<open>Transfers\<close>

lemma misc_create_transfer:
  "misc (create_transfer owner number target amt) = last_chars 2 (zfill 5 target)"
  by (simp add: create_transfer_def Transaction_def Let_def)

lemma alice_transfers_to_herself:
  "process_transfer alice_session ''00001'' ''00001'' 300 None =
     (Inr (True, ''Transfer of $300.00 successful.''),
      \<lparr>accounts = [alice, bob],
       transactions = [create_transfer ''Alice'' ''00001'' ''00001'' 300],
       is_logged_in = True, is_admin = False, current_user = Some ''Alice'',
       session_withdrawals = 0, session_transfers = 300, session_paybills = 0\<rparr>)"
  by (simp add: alice_session_eq process_transfer_def validate_transfer_def lookup_eval
        withdraw_def deposit_def MAX_TRANSFER_STANDARD_def format_eval)

text \<open>
  C6, as stated, fails when source and destination resolve to the same account: the
  transfer is accepted, the amount is withdrawn from and then deposited into the one
  object, and the source balance is not decreased.
\<close>

theorem transfer_to_same_account_counterexample:
  "fst (process_transfer alice_session ''00001'' ''00001'' 300 None)
     = Inr (True, ''Transfer of $300.00 successful.'')
   \<and> find_user_account alice_session (acting_owner alice_session None) ''00001'' = Some 0
   \<and> find_account_by_number alice_session ''00001'' = Some 0
   \<and> balance (accounts alice_session ! 0) = 1000
   \<and> balance (accounts (snd (process_transfer alice_session ''00001'' ''00001'' 300 None)) ! 0) = 1000
   \<and> balance (accounts (snd (process_transfer alice_session ''00001'' ''00001'' 300 None)) ! 0)
        \<noteq> balance (accounts alice_session ! 0) - 300"
  by (simp add: alice_transfers_to_herself) (simp add: alice_session_eq lookup_eval)

lemma self_transfer_rounds:
  "float_add (float_sub (round_double (49506 / 100)) (round_double (13079 / 100)))
     (round_double (13079 / 100)) < round_double (49506 / 100)"
  by (simp add: double_eval)

text \<open>
  C6, amended. A successful transfer between two different accounts of the list at
  once replaces the source balance by the float difference of that balance and the
  amount, and the destination balance by the float sum of that balance and the same
  amount (each the float nearest to the exact result; for the sum, provided it does not
  exceed the largest float). When source and destination are the same account, its
  balance becomes the float sum of that difference and the amount, under the same
  proviso, which rounding can leave below the old balance (\<open>495.06\<close> and
  \<open>130.79\<close>). The
  transfer record appended to the log has as misc field the last two characters of the
  destination number zero-filled to five characters, \<open>02\<close> for \<open>00002\<close>.
\<close>

theorem transfer_moves_amount:
  "(fst (process_transfer s number target amt holder) = Inr (True, msg) \<longrightarrow>
      (\<exists>i j owner.
          find_user_account s (acting_owner s holder) number = Some i
        \<and> find_account_by_number s target = Some j
        \<and> acting_owner s holder = Some owner
        \<and> (i \<noteq> j \<longrightarrow>
              balance (accounts (snd (process_transfer s number target amt holder)) ! i)
                = float_sub (balance (accounts s ! i)) amt
            \<and> (\<bar>balance (accounts s ! j) + amt\<bar> \<le> max_float \<longrightarrow>
                 balance (accounts (snd (process_transfer s number target amt holder)) ! j)
                   = float_add (balance (accounts s ! j)) amt))
        \<and> (i = j \<longrightarrow>
              \<bar>float_sub (balance (accounts s ! i)) amt + amt\<bar> \<le> max_float \<longrightarrow>
              balance (accounts (snd (process_transfer s number target amt holder)) ! i)
                = float_add (float_sub (balance (accounts s ! i)) amt) amt)
        \<and> transactions (snd (process_transfer s number target amt holder))
            = transactions s @ [create_transfer owner number target amt]))
   \<and> misc (create_transfer name number target amt) = last_chars 2 (zfill 5 target)
   \<and> misc (create_transfer name number ''00002'' amt) = ''02''
   \<and> float_sub x amt = round_double (x - amt)
   \<and> float_add x amt = round_double (x + amt)
   \<and> float_add (float_sub (round_double (49506 / 100)) (round_double (13079 / 100)))
         (round_double (13079 / 100)) < round_double (49506 / 100)"
proof (intro conjI impI)
  assume a: "fst (process_transfer s number target amt holder) = Inr (True, msg)"
  from process_transfer_success [OF a] obtain i j owner where
    i: "find_user_account s (acting_owner s holder) number = Some i" and
    j: "find_account_by_number s target = Some j" and
    o: "acting_owner s holder = Some owner" and
    l: "i < length (accounts s)" "j < length (accounts s)" and
    s': "snd (process_transfer s number target amt holder)
           = s\<lparr>accounts :=
                 ((accounts s)[i := (accounts s ! i)\<lparr>balance := float_sub (balance (accounts s ! i)) amt\<rparr>])
                   [j := deposit (((accounts s)[i := (accounts s ! i)\<lparr>balance := float_sub (balance (accounts s ! i)) amt\<rparr>]) ! j) amt],
               session_transfers := float_add (session_transfers s) amt,
               transactions := transactions s @ [create_transfer owner number target amt]\<rparr>"
    by blast
  from l have d: "i \<noteq> j \<longrightarrow>
              balance (accounts (snd (process_transfer s number target amt holder)) ! i)
                = float_sub (balance (accounts s ! i)) amt
            \<and> (\<bar>balance (accounts s ! j) + amt\<bar> \<le> max_float \<longrightarrow>
                 balance (accounts (snd (process_transfer s number target amt holder)) ! j)
                   = float_add (balance (accounts s ! j)) amt)"
    by (simp add: s' deposit_def)
  from l have e: "i = j \<longrightarrow>
              \<bar>float_sub (balance (accounts s ! i)) amt + amt\<bar> \<le> max_float \<longrightarrow>
              balance (accounts (snd (process_transfer s number target amt holder)) ! i)
                = float_add (float_sub (balance (accounts s ! i)) amt) amt"
    by (simp add: s' deposit_def)
  have t: "transactions (snd (process_transfer s number target amt holder))
            = transactions s @ [create_transfer owner number target amt]"
    by (simp add: s')
  from i j o d e t
  show "\<exists>i j owner.
          find_user_account s (acting_owner s holder) number = Some i
        \<and> find_account_by_number s target = Some j
        \<and> acting_owner s holder = Some owner
        \<and> (i \<noteq> j \<longrightarrow>
              balance (accounts (snd (process_transfer s number target amt holder)) ! i)
                = float_sub (balance (accounts s ! i)) amt
            \<and> (\<bar>balance (accounts s ! j) + amt\<bar> \<le> max_float \<longrightarrow>
                 balance (accounts (snd (process_transfer s number target amt holder)) ! j)
                   = float_add (balance (accounts s ! j)) amt))
        \<and> (i = j \<longrightarrow>
              \<bar>float_sub (balance (accounts s ! i)) amt + amt\<bar> \<le> max_float \<longrightarrow>
              balance (accounts (snd (process_transfer s number target amt holder)) ! i)
                = float_add (float_sub (balance (accounts s ! i)) amt) amt)
        \<and> transactions (snd (process_transfer s number target amt holder))
            = transactions s @ [create_transfer owner number target amt]"
    by blast
next
  show "misc (create_transfer name number target amt) = last_chars 2 (zfill 5 target)"
    by (rule misc_create_transfer)
next
  show "misc (create_transfer name number ''00002'' amt) = ''02''"
    by (simp add: misc_create_transfer zfill_def last_chars_def)
next
  show "float_sub x amt = round_double (x - amt)" by (simp add: float_sub_def)
next
  show "float_add x amt = round_double (x + amt)" by (simp add: float_add_def)
next
  show "float_add (float_sub (round_double (49506 / 100)) (round_double (13079 / 100)))
         (round_double (13079 / 100)) < round_double (49506 / 100)"
    by (rule self_transfer_rounds)
qed

theorem transfer_moves_amount_witness:
  "fst (process_transfer alice_session ''00001'' ''00002'' 300 None)
     = Inr (True, ''Transfer of $300.00 successful.'')
   \<and> find_user_account alice_session (acting_owner alice_session None) ''00001'' = Some 0
   \<and> find_account_by_number alice_session ''00002'' = Some 1
   \<and> balance (accounts alice_session ! 0) = 1000
   \<and> balance (accounts alice_session ! 1) = 50
   \<and> balance (accounts (snd (process_transfer alice_session ''00001'' ''00002'' 300 None)) ! 0) = 700
   \<and> balance (accounts (snd (process_transfer alice_session ''00001'' ''00002'' 300 None)) ! 1) = 350
   \<and> \<bar>balance (accounts alice_session ! 1) + 300\<bar> \<le> max_float
   \<and> misc (last (transactions (snd (process_transfer alice_session ''00001'' ''00002'' 300 None)))) = ''02''"
proof -
  have t: "fst (process_transfer alice_session ''00001'' ''00002'' 300 None)
     = Inr (True, ''Transfer of $300.00 successful.'')"
    by (simp add: alice_transfers_300)
  have f: "find_user_account alice_session (acting_owner alice_session None) ''00001'' = Some 0"
    "find_account_by_number alice_session ''00002'' = Some 1"
    "acting_owner alice_session None = Some ''Alice''"
    by (simp_all add: alice_session_eq lookup_eval)
  have b: "balance (accounts alice_session ! 0) = 1000" "balance (accounts alice_session ! 1) = 50"
    by (simp_all add: alice_session_eq alice_def bob_def)
  from transfer_moves_amount
         [of alice_session "''00001''" "''00002''" 300 None "''Transfer of $300.00 successful.''"
             "''Alice''"]
       t f b
  show ?thesis by (simp add: zfill_def last_chars_def float_eval max_float_def)
qed

section \<open>The transaction log\<close>

lemma factory_codes:
  "code (create_withdrawal n a x) = ''01''" "code (create_transfer n a b x) = ''02''"
  "code (create_paybill n a x c) = ''03''" "code (create_deposit n a x) = ''04''"
  "code (create_account n a x) = ''05''" "code (create_delete n a) = ''06''"
  "code (create_disable n a) = ''07''" "code (create_changeplan n a) = ''08''"
  "code create_end_session = ''00''"
  by (simp_all add: create_withdrawal_def create_transfer_def create_paybill_def
        create_deposit_def create_account_def create_delete_def create_disable_def
        create_changeplan_def create_end_session_def Transaction_def code_of_def CODES_def Let_def)

lemma appends_records_refl: "appends_records old old"
  by (simp add: appends_records_def)

lemma appends_records_one:
  "length (code t) = 2 \<Longrightarrow> code t \<noteq> ''00'' \<Longrightarrow> appends_records old (old @ [t])"
  by (simp add: appends_records_def)

lemma log_login: "transactions (snd (process_login s mode user_name)) = transactions s"
  by (simp add: process_login_def split: option.splits)

lemma log_logout: "transactions (snd (process_logout s)) = transactions s"
  by (simp add: process_logout_def)

lemma log_withdrawal:
  "appends_records (transactions s) (transactions (snd (process_withdrawal s number amt holder)))"
  by (simp add: process_withdrawal_def Let_def appends_records_refl appends_records_one
        factory_codes split: option.splits)

lemma log_transfer:
  "appends_records (transactions s) (transactions (snd (process_transfer s number target amt holder)))"
  by (simp add: process_transfer_def Let_def appends_records_refl appends_records_one
        factory_codes split: option.splits)

lemma log_paybill:
  "appends_records (transactions s) (transactions (snd (process_paybill s number amt company holder)))"
  by (simp add: process_paybill_def Let_def appends_records_refl appends_records_one
        factory_codes split: option.splits)

lemma log_deposit:
  "appends_records (transactions s) (transactions (snd (process_deposit s number amt holder)))"
  by (simp add: process_deposit_def Let_def appends_records_refl appends_records_one
        factory_codes split: option.splits)

lemma log_create:
  "appends_records (transactions s) (transactions (snd (process_create s name bal)))"
  by (simp add: process_create_def Let_def appends_records_refl appends_records_one
        factory_codes split: option.splits)

lemma log_delete:
  "appends_records (transactions s) (transactions (snd (process_delete s name number)))"
  by (simp add: process_delete_def Let_def appends_records_refl appends_records_one
        factory_codes split: option.splits)

lemma log_disable:
  "appends_records (transactions s) (transactions (snd (process_disable s name number)))"
  by (simp add: process_disable_def Let_def appends_records_refl appends_records_one
        factory_codes split: option.splits)

lemma log_changeplan:
  "appends_records (transactions s) (transactions (snd (process_changeplan s name number)))"
  by (simp add: process_changeplan_def Let_def appends_records_refl appends_records_one
        factory_codes split: option.splits)

lemma log_process: "appends_records (transactions s) (transactions (snd (process s r)))"
  by (cases r)
     (simp_all add: log_login log_logout appends_records_refl log_withdrawal log_transfer
        log_paybill log_deposit log_create log_delete log_disable log_changeplan)

lemma log_codes_run:
  "\<forall>t \<in> set (transactions (run evs)). length (code t) = 2 \<and> code t \<noteq> ''00''"
proof (induction evs rule: rev_induct)
  case Nil
  show ?case by (simp add: run_def init_def)
next
  case (snoc e evs)
  show ?case
  proof (cases e)
    case (Load parsed)
    with snoc show ?thesis by (simp add: run_snoc load_accounts_def)
  next
    case (Call r)
    from log_process [of "run evs" r] snoc Call show ?thesis
      by (auto simp: run_snoc appends_records_def)
  qed
qed

lemma log_accounts_login: "accounts (snd (process_login s mode user_name)) = accounts s"
  by (simp add: process_login_def split: option.splits)

lemma alice_logs_in_again:
  "run [Load [alice, bob], Call (Login ''standard'' (Some ''Alice'')),
        Call (Withdrawal ''00001'' 500 None), Call Logout]
     = \<lparr>accounts = [alice\<lparr>balance := 500\<rparr>, bob],
        transactions = [create_withdrawal ''Alice'' ''00001'' 500],
        is_logged_in = False, is_admin = False, current_user = None,
        session_withdrawals = 0, session_transfers = 0, session_paybills = 0\<rparr>"
proof -
  have "run [Load [alice, bob], Call (Login ''standard'' (Some ''Alice'')),
             Call (Withdrawal ''00001'' 500 None), Call Logout]
          = snd (process_logout (snd (process_withdrawal alice_session ''00001'' 500 None)))"
    by (simp add: run_def alice_session_def)
  then show ?thesis by (simp add: alice_withdraws_500 process_logout_def)
qed

text \<open>
  C4, as stated, fails: a login does not empty the transaction log. After a session
  with one withdrawal and a logout, the next successful login still finds the
  withdrawal record in the log. The log is assigned once, by the constructor, and is
  only appended to afterwards; the file written at each logout carries the date in its
  name and holds the whole log accumulated so far.
\<close>

theorem log_survives_login_counterexample:
  "fst (process_login
          (run [Load [alice, bob], Call (Login ''standard'' (Some ''Alice'')),
                Call (Withdrawal ''00001'' 500 None), Call Logout])
          ''standard'' (Some ''Alice''))
     = Inr (True, ''Standard user Alice logged in.'')
   \<and> transactions
        (snd (process_login
                (run [Load [alice, bob], Call (Login ''standard'' (Some ''Alice'')),
                      Call (Withdrawal ''00001'' 500 None), Call Logout])
                ''standard'' (Some ''Alice'')))
       = [create_withdrawal ''Alice'' ''00001'' 500]
   \<and> transactions
        (snd (process_login
                (run [Load [alice, bob], Call (Login ''standard'' (Some ''Alice'')),
                      Call (Withdrawal ''00001'' 500 None), Call Logout])
                ''standard'' (Some ''Alice''))) \<noteq> []"
  by (simp add: alice_logs_in_again process_login_def)

text \<open>
  C4, amended. No operation of the controller clears the transaction log. A login
  leaves the log and the account list exactly as they were, every operation leaves the
  old log as a prefix of the new one and appends at most one record, and loading an
  accounts file leaves the log untouched. The log is empty after a login only when it
  was empty before.
\<close>

theorem log_is_never_cleared:
  "transactions (snd (process_login s mode user_name)) = transactions s
   \<and> accounts (snd (process_login s mode user_name)) = accounts s
   \<and> (\<exists>added. transactions (snd (process s r)) = transactions s @ added \<and> length added \<le> 1)
   \<and> transactions (load_accounts s parsed) = transactions s"
  using log_process [of s r]
  by (auto simp: log_login log_accounts_login load_accounts_def appends_records_def)

section \<open>The transaction file\<close>

lemma join_terminated:
  "ls \<noteq> [] \<Longrightarrow> join sep ls @ sep = concat (map (\<lambda>l. l @ sep) ls)"
  by (induction sep ls rule: join.induct) simp_all

lemma generate_transaction_file_records:
  "generate_transaction_file txs
     = concat (map (\<lambda>t. to_file_string t @ [newline]) (txs @ [create_end_session]))"
proof -
  have "generate_transaction_file txs
          = concat (map (\<lambda>l. l @ [newline]) (map to_file_string txs @ [to_file_string create_end_session]))"
    by (simp only: generate_transaction_file_def Let_def join_terminated [of _ "[newline]"]
          append_is_Nil_conv not_Cons_self2 simp_thms)
  then show ?thesis by (simp add: comp_def)
qed

lemma count_terminators:
  "\<forall>l \<in> set ls. c \<notin> set l \<Longrightarrow> count_list (concat (map (\<lambda>l. l @ [c]) ls)) c = length ls"
  by (induction ls) (simp_all add: count_list_0_iff)

lemma end_session_line:
  "to_file_string create_end_session = ''00                      00000 00000.00  ''"
  by (simp add: to_file_string_def create_end_session_def Transaction_def code_of_def CODES_def
        ljust_def zfill_def format_eval list_eval)

lemma to_file_string_code: "take (length (code t)) (to_file_string t) = code t"
  by (simp add: to_file_string_def Let_def)

lemma user_record_line:
  assumes "length (code t) = 2" and "code t \<noteq> ''00''"
  shows "to_file_string t \<noteq> to_file_string create_end_session"
proof
  assume "to_file_string t = to_file_string create_end_session"
  then have "take 2 (to_file_string t) = take 2 (to_file_string create_end_session)" by simp
  moreover have "take 2 (to_file_string t) = code t"
    using to_file_string_code [of t] assms(1) by (simp add: numeral_2_eq_2)
  moreover have "take 2 (to_file_string create_end_session) = ''00''"
    using to_file_string_code [of create_end_session] by (simp add: factory_codes numeral_2_eq_2)
  ultimately show False using assms(2) by simp
qed

lemma admin_generates_00003: "generate_account_number admin_session = ''00003''"
proof -
  have p1: "py_int ''00001'' = Some 1"
    by (simp add: py_int_def strip_def is_space_def is_digit_def digit_val_def)
  have p2: "py_int ''00002'' = Some 2"
    by (simp add: py_int_def strip_def is_space_def is_digit_def digit_val_def)
  show ?thesis
    by (simp add: generate_account_number_def admin_session_eq alice_def bob_def p1 p2
          str_int_def zfill_def str_nat_small digit_char_simps list_eval)
qed

lemma admin_creates_two_line_name:
  "process_create admin_session [CHR ''A'', newline, CHR ''B''] 0 =
     (Inr (True,
        ''Account 00003 created for '' @ [CHR ''A'', newline, CHR ''B'']
          @ '' (available next session).''),
      admin_session\<lparr>transactions :=
        [create_account [CHR ''A'', newline, CHR ''B''] ''00003'' 0]\<rparr>)"
proof -
  have fresh: "find_account_by_number admin_session ''00003'' = None"
    using generated_number_is_new [of admin_session] by (simp add: admin_generates_00003)
  have adm: "is_logged_in admin_session" "is_admin admin_session"
    "transactions admin_session = []"
    by (simp_all add: admin_session_eq)
  show ?thesis
    by (simp add: process_create_def Let_def admin_generates_00003 fresh adm
          validate_create_def MAX_NAME_LENGTH_def max_account_balance_value)
qed

lemma two_line_record:
  "to_file_string (create_account [CHR ''A'', newline, CHR ''B''] ''00003'' 0)
     = ''05 A'' @ [newline] @ ''B                  00003 00000.00  ''"
  by (simp add: to_file_string_def create_account_def Transaction_def code_of_def CODES_def
        ljust_def zfill_def format_eval list_eval)

text \<open>
  C5, as stated, fails: the file of a log of N transactions need not have N+1 lines.
  An admin session accepts a new account whose holder name contains a newline; the log
  then holds one record and the generated file has three newlines.
\<close>

theorem name_with_newline_counterexample:
  "fst (process_create admin_session [CHR ''A'', newline, CHR ''B''] 0)
     = Inr (True,
         ''Account 00003 created for '' @ [CHR ''A'', newline, CHR ''B'']
           @ '' (available next session).'')
   \<and> length (transactions (snd (process_create admin_session [CHR ''A'', newline, CHR ''B''] 0)))
       = 1
   \<and> count_list
         (generate_transaction_file
            (transactions (snd (process_create admin_session [CHR ''A'', newline, CHR ''B''] 0))))
         newline = 3"
proof -
  have "generate_transaction_file [create_account [CHR ''A'', newline, CHR ''B''] ''00003'' 0]
          = ''05 A'' @ [newline] @ ''B                  00003 00000.00  '' @ [newline]
            @ to_file_string create_end_session @ [newline]"
    by (simp add: generate_transaction_file_records two_line_record)
  then have "count_list
               (generate_transaction_file [create_account [CHR ''A'', newline, CHR ''B''] ''00003'' 0])
               newline = 3"
    by (simp add: end_session_line) (simp add: newline_def)
  then show ?thesis by (simp add: admin_creates_two_line_name)
qed

text \<open>
  C5, amended. The transaction file generated from a log of N transactions is N+1
  records, each followed by a newline; the last is the End-Session record (code 00, a
  name of twenty blanks, account number 00000, amount 0). When no record contains a
  newline itself the file has exactly N+1 newlines, hence N+1 lines. In every run of the
  controller the log holds no End-Session record and no record that serializes like one,
  so that record occurs once, at the end, added by the serializer.
\<close>

theorem transaction_file_lines:
  "generate_transaction_file txs
     = concat (map (\<lambda>t. to_file_string t @ [newline]) (txs @ [create_end_session]))
   \<and> length (txs @ [create_end_session]) = length txs + 1
   \<and> create_end_session
       = \<lparr>code = ''00'', account_holder_name = replicate 20 CHR '' '',
          tx_account_number = ''00000'', amount = 0, misc = ''  ''\<rparr>
   \<and> to_file_string create_end_session = ''00                      00000 00000.00  ''
   \<and> ((\<forall>t \<in> set txs. newline \<notin> set (to_file_string t)) \<longrightarrow>
        count_list (generate_transaction_file txs) newline = length txs + 1)
   \<and> (\<forall>t \<in> set (transactions (run evs)).
        t \<noteq> create_end_session \<and> to_file_string t \<noteq> to_file_string create_end_session)"
proof (intro conjI impI ballI)
  show "generate_transaction_file txs
     = concat (map (\<lambda>t. to_file_string t @ [newline]) (txs @ [create_end_session]))"
    by (rule generate_transaction_file_records)
next
  show "length (txs @ [create_end_session]) = length txs + 1" by simp
next
  show "create_end_session
       = \<lparr>code = ''00'', account_holder_name = replicate 20 CHR '' '',
          tx_account_number = ''00000'', amount = 0, misc = ''  ''\<rparr>"
    by (simp add: create_end_session_def Transaction_def code_of_def CODES_def)
next
  show "to_file_string create_end_session = ''00                      00000 00000.00  ''"
    by (rule end_session_line)
next
  assume a: "\<forall>t \<in> set txs. newline \<notin> set (to_file_string t)"
  have e: "newline \<notin> set (to_file_string create_end_session)"
    by (simp add: end_session_line newline_def)
  have "generate_transaction_file txs
          = concat (map (\<lambda>l. l @ [newline]) (map to_file_string (txs @ [create_end_session])))"
    by (simp add: generate_transaction_file_records comp_def)
  moreover have "\<forall>l \<in> set (map to_file_string (txs @ [create_end_session])). newline \<notin> set l"
    using a e by auto
  ultimately show "count_list (generate_transaction_file txs) newline = length txs + 1"
    by (simp only: count_terminators length_map length_append list.size)
next
  fix t assume "t \<in> set (transactions (run evs))"
  with log_codes_run [of evs] have c: "length (code t) = 2" "code t \<noteq> ''00''" by auto
  then show "t \<noteq> create_end_session" by (auto simp: factory_codes)
  from c show "to_file_string t \<noteq> to_file_string create_end_session"
    by (rule user_record_line)
qed

lemma withdrawal_line:
  "to_file_string (create_withdrawal ''Alice'' ''00001'' 500) = ''01 Alice                00001 00500.00  ''"
  by (simp add: to_file_string_def create_withdrawal_def Transaction_def code_of_def CODES_def
        ljust_def zfill_def format_eval list_eval)

theorem transaction_file_lines_witness:
  "newline \<notin> set (to_file_string (create_withdrawal ''Alice'' ''00001'' 500))
   \<and> generate_transaction_file [create_withdrawal ''Alice'' ''00001'' 500]
       = ''01 Alice                00001 00500.00  '' @ [newline]
         @ ''00                      00000 00000.00  '' @ [newline]
   \<and> count_list (generate_transaction_file [create_withdrawal ''Alice'' ''00001'' 500]) newline = 2
   \<and> transactions (run [Load [alice, bob], Call (Login ''standard'' (Some ''Alice'')),
                         Call (Withdrawal ''00001'' 500 None), Call Logout])
       = [create_withdrawal ''Alice'' ''00001'' 500]
   \<and> to_file_string (create_withdrawal ''Alice'' ''00001'' 500)
       \<noteq> to_file_string create_end_session"
proof -
  have n: "newline \<notin> set (to_file_string (create_withdrawal ''Alice'' ''00001'' 500))"
    by (simp add: withdrawal_line newline_def)
  have r: "transactions (run [Load [alice, bob], Call (Login ''standard'' (Some ''Alice'')),
                         Call (Withdrawal ''00001'' 500 None), Call Logout])
       = [create_withdrawal ''Alice'' ''00001'' 500]"
    by (simp add: alice_logs_in_again)
  note T = transaction_file_lines
         [of "[create_withdrawal ''Alice'' ''00001'' 500]"
             "[Load [alice, bob], Call (Login ''standard'' (Some ''Alice'')),
               Call (Withdrawal ''00001'' 500 None), Call Logout]"]
  from T [THEN conjunct1]
  have g: "generate_transaction_file [create_withdrawal ''Alice'' ''00001'' 500]
             = to_file_string (create_withdrawal ''Alice'' ''00001'' 500) @ [newline]
               @ to_file_string create_end_session @ [newline]"
    by simp
  from T [THEN conjunct2, THEN conjunct2, THEN conjunct2, THEN conjunct2, THEN conjunct1] n
  have c: "count_list (generate_transaction_file [create_withdrawal ''Alice'' ''00001'' 500]) newline = 2"
    by simp
  from T [THEN conjunct2, THEN conjunct2, THEN conjunct2, THEN conjunct2, THEN conjunct2] r
  have d: "to_file_string (create_withdrawal ''Alice'' ''00001'' 500)
             \<noteq> to_file_string create_end_session"
    by simp
  from n g c r d show ?thesis
    by (simp only: withdrawal_line end_session_line simp_thms)
qed


section \<open>The order of the validation rules\<close>

lemmas format_cap_values =
  format_caps [unfolded MAX_WITHDRAWAL_STANDARD_def MAX_TRANSFER_STANDARD_def MAX_PAYBILL_STANDARD_def]

lemma withdrawal_rule_order:
  "validate_withdrawal acct amt admin tot
     = map_option withdrawal_message (surfaced_rule (withdrawal_violated acct amt admin tot))"
  by (cases acct)
     (simp_all add: validate_withdrawal_def surfaced_rule_def rule_order_def format_cap_values
        MAX_WITHDRAWAL_STANDARD_def not_less)

lemma transfer_rule_order:
  "validate_transfer source target amt admin tot
     = map_option (transfer_message source)
         (surfaced_rule (transfer_violated source target amt admin tot))"
  by (cases source; cases target)
     (simp_all add: validate_transfer_def surfaced_rule_def rule_order_def format_cap_values
        MAX_TRANSFER_STANDARD_def not_less)

lemma paybill_rule_order:
  "validate_paybill acct amt company admin tot
     = map_option (paybill_message company)
         (surfaced_rule (paybill_violated acct amt company admin tot))"
  by (cases acct)
     (simp_all add: validate_paybill_def surfaced_rule_def rule_order_def format_cap_values
        MAX_PAYBILL_STANDARD_def VALID_COMPANIES_def not_less)

lemma deposit_rule_order:
  "validate_deposit acct amt
     = map_option withdrawal_message (surfaced_rule (deposit_violated acct amt))"
  by (cases acct)
     (simp_all add: validate_deposit_def surfaced_rule_def rule_order_def not_less)

text \<open>
  C8. Each validator returns the message of the first violated rule in the fixed order
  existence, disabled status, transaction-specific checks, session cap, balance; it
  returns no error exactly when no rule is violated. In particular a withdrawal against
  a disabled account with insufficient balance is answered with the disabled-account
  message, not the insufficient-funds message.
\<close>

theorem validation_rule_order:
  "validate_withdrawal acct amt admin tot
     = map_option withdrawal_message (surfaced_rule (withdrawal_violated acct amt admin tot))
   \<and> validate_transfer source target amt admin tot
     = map_option (transfer_message source)
         (surfaced_rule (transfer_violated source target amt admin tot))
   \<and> validate_paybill acct amt company admin tot
     = map_option (paybill_message company)
         (surfaced_rule (paybill_violated acct amt company admin tot))
   \<and> validate_deposit acct amt
     = map_option withdrawal_message (surfaced_rule (deposit_violated acct amt))
   \<and> (is_disabled a \<and> balance a < amt \<longrightarrow>
        validate_withdrawal (Some a) amt admin tot = Some ''Account is disabled.''
        \<and> validate_withdrawal (Some a) amt admin tot \<noteq> Some ''Insufficient funds.'')"
  by (simp add: withdrawal_rule_order [symmetric] transfer_rule_order [symmetric]
        paybill_rule_order [symmetric] deposit_rule_order [symmetric])
     (simp add: validate_withdrawal_def)

theorem validation_rule_order_witness:
  "is_disabled (alice\<lparr>status := ''D''\<rparr>) \<and> balance (alice\<lparr>status := ''D''\<rparr>) < 2000
   \<and> validate_withdrawal (Some (alice\<lparr>status := ''D''\<rparr>)) 2000 False 0 = Some ''Account is disabled.''
   \<and> surfaced_rule (withdrawal_violated (Some (alice\<lparr>status := ''D''\<rparr>)) 2000 False 0)
       = Some DisabledStatus
   \<and> withdrawal_violated (Some (alice\<lparr>status := ''D''\<rparr>)) 2000 False 0 SessionCap
   \<and> withdrawal_violated (Some (alice\<lparr>status := ''D''\<rparr>)) 2000 False 0 BalanceSufficiency"
proof -
  have d: "is_disabled (alice\<lparr>status := ''D''\<rparr>)" by (simp add: is_disabled_def)
  have b: "balance (alice\<lparr>status := ''D''\<rparr>) < 2000" by (simp add: alice_def)
  from validation_rule_order [of "Some (alice\<lparr>status := ''D''\<rparr>)" 2000 False 0 None None "''EC''"
         "alice\<lparr>status := ''D''\<rparr>"] d b
  show ?thesis
    by (simp add: surfaced_rule_def rule_order_def float_eval)
qed


end
